theory Spec2Isabelle
  imports Complex_Main
begin

section \<open>Values exchanged with the SOLIDserver REST API\<close>

text \<open>
  The handlers decode every response body with \<^verbatim>\<open>json.Unmarshal\<close> into
  \<^verbatim>\<open>[](map[string]interface{})\<close>. A decoded value is one of the shapes
  \<^verbatim>\<open>encoding/json\<close> produces for \<^verbatim>\<open>interface{}\<close>; the handlers only ever
  ask whether a value is a string.
\<close>

datatype jvalue =
    JString string
  | JNumber real
  | JBool bool
  | JNull
  | JArray "jvalue list"
  | JObject "(string \<times> jvalue) list"

type_synonym jobject = "string \<rightharpoonup> jvalue"

text \<open>\<^verbatim>\<open>url.Values\<close> is \<^verbatim>\<open>map[string][]string\<close>; \<^verbatim>\<open>Add\<close> appends to the
  list stored under the key.\<close>

type_synonym Values = "string \<rightharpoonup> string list"

definition Add :: "string \<Rightarrow> string \<Rightarrow> Values \<Rightarrow> Values" where
  "Add k v m = m(k \<mapsto> (case m k of None \<Rightarrow> [v] | Some vs \<Rightarrow> vs @ [v]))"

text \<open>A Go \<^verbatim>\<open>error\<close> is \<open>None\<close> when nil and carries its message otherwise.
  \<^verbatim>\<open>diag.Diagnostics\<close> is the list of error summaries, nil being the empty list.
  \<^verbatim>\<open>diag.FromErr\<close> of a nil error is nil.\<close>

type_synonym error = "string option"
type_synonym Diagnostics = "string list"

definition Errorf :: "string \<Rightarrow> Diagnostics" where
  "Errorf msg = [msg]"

definition FromErr :: "error \<Rightarrow> Diagnostics" where
  "FromErr e = (case e of None \<Rightarrow> [] | Some msg \<Rightarrow> [msg])"

text \<open>One call of \<^verbatim>\<open>s.Request(verb, path, &parameters)\<close> and what it returns:
  \<^verbatim>\<open>resp.StatusCode\<close>, the body as \<^verbatim>\<open>json.Unmarshal\<close> decodes it into
  \<^verbatim>\<open>buf\<close> (the empty list when the body is not a JSON array of objects), and
  the transport error. The status code and the body are only read when the error is nil.\<close>

record request =
  verb :: string
  path :: string
  parameters :: Values

record reply =
  StatusCode :: int
  buf :: "jobject list"
  err :: error

record SOLIDserver =
  Version :: int
  Request :: "request \<Rightarrow> reply"

text \<open>A run-time panic of the Go program: a failed unchecked type assertion
  \<^verbatim>\<open>buf[0][key].(string)\<close> (naming the key), or an index out of range.\<close>

datatype panic = InterfaceConversion string | IndexOutOfRange

definition bind :: "panic + 'a \<Rightarrow> ('a \<Rightarrow> panic + 'b) \<Rightarrow> panic + 'b" where
  "bind m f = (case m of Inl p \<Rightarrow> Inl p | Inr x \<Rightarrow> f x)"

text \<open>The checked assertion \<^verbatim>\<open>v, ok := b[k].(string)\<close> and the unchecked one
  \<^verbatim>\<open>b[k].(string)\<close>. A missing key reads as nil, which is not a string.\<close>

definition stringOk :: "jobject \<Rightarrow> string \<Rightarrow> string option" where
  "stringOk b k = (case b k of Some (JString v) \<Rightarrow> Some v | _ \<Rightarrow> None)"

definition stringOf :: "jobject \<Rightarrow> string \<Rightarrow> panic + string" where
  "stringOf b k = (case stringOk b k of Some v \<Rightarrow> Inr v | None \<Rightarrow> Inl (InterfaceConversion k))"

subsection \<open>Library conversions used by the handlers\<close>

text \<open>\<^verbatim>\<open>strings.ToLower\<close> on the ASCII letters. (Go also maps letters outside
  ASCII; the fields it is applied to are validated to ASCII by the schema.)\<close>

definition lowerChar :: "char \<Rightarrow> char" where
  "lowerChar c =
     (case map_of (zip ''ABCDEFGHIJKLMNOPQRSTUVWXYZ'' ''abcdefghijklmnopqrstuvwxyz'') c of
        Some l \<Rightarrow> l
      | None \<Rightarrow> c)"

definition ToLower :: "string \<Rightarrow> string" where
  "ToLower s = map lowerChar s"

text \<open>\<^verbatim>\<open>strings.TrimSuffix\<close>: removes the suffix once when the string ends with it.\<close>

definition TrimSuffix :: "string \<Rightarrow> string \<Rightarrow> string" where
  "TrimSuffix s suffix =
     (if length suffix \<le> length s \<and> drop (length s - length suffix) s = suffix
      then take (length s - length suffix) s else s)"

text \<open>\<^verbatim>\<open>strings.Split\<close> for a separator of one byte, which is how the handlers
  call it: the pieces between the separators, one piece (the whole string, possibly
  empty) when the separator does not occur.\<close>

fun Split :: "string \<Rightarrow> char \<Rightarrow> string list" where
  "Split [] sep = [[]]"
| "Split (c # cs) sep =
     (if c = sep then [] # Split cs sep
      else (case Split cs sep of [] \<Rightarrow> [[c]] | p # ps \<Rightarrow> (c # p) # ps))"

text \<open>\<^verbatim>\<open>strconv.Itoa\<close>: the decimal form of an integer.\<close>

function Itoa_nat :: "nat \<Rightarrow> string" where
  "Itoa_nat n = (if n < 10 then [''0123456789'' ! n]
                 else Itoa_nat (n div 10) @ [''0123456789'' ! (n mod 10)])"
  by pat_completeness auto
termination
  by (relation "measure id") auto

declare Itoa_nat.simps [simp del]

definition Itoa :: "int \<Rightarrow> string" where
  "Itoa i = (if i < 0 then CHR ''-'' # Itoa_nat (nat (- i)) else Itoa_nat (nat i))"

text \<open>\<^verbatim>\<open>strconv.Atoi\<close> with its error dropped, as in \<^verbatim>\<open>n, _ := strconv.Atoi(s)\<close>:
  an optional sign and at least one decimal digit; 0 on a syntax error, and the nearest
  bound of the 64-bit range when the number does not fit.\<close>

definition digitVal :: "char \<Rightarrow> int option" where
  "digitVal c = map_of (zip ''0123456789'' [0, 1, 2, 3, 4, 5, 6, 7, 8, 9]) c"

fun digitsVal :: "int \<Rightarrow> string \<Rightarrow> int option" where
  "digitsVal acc [] = Some acc"
| "digitsVal acc (c # cs) =
     (case digitVal c of None \<Rightarrow> None | Some v \<Rightarrow> digitsVal (10 * acc + v) cs)"

definition Atoi :: "string \<Rightarrow> int" where
  "Atoi s =
     (let neg = (s \<noteq> [] \<and> hd s = CHR ''-'');
          ds = (if s \<noteq> [] \<and> (hd s = CHR ''-'' \<or> hd s = CHR ''+'') then tl s else s)
      in if ds = [] then 0
         else (case digitsVal 0 ds of
                 None \<Rightarrow> 0
               | Some n \<Rightarrow> if neg then max (- (2 ^ 63)) (- n) else min (2 ^ 63 - 1) n))"


text \<open>The helpers \<^verbatim>\<open>toStringArray\<close> and \<^verbatim>\<open>toStringArrayInterface\<close> are
  defined in a file of the provider that is not among the sources.\<close>

definition toStringArray :: "string list \<Rightarrow> string list" where
  \<comment> \<open>Modelled from the spec: the helper \<^verbatim>\<open>toStringArray\<close> is missing; the spec calls it
     string-array marshaling, a direct conversion: from \<^verbatim>\<open>[]interface{}\<close> holding
     strings to \<^verbatim>\<open>[]string\<close>, element by element.\<close>
  "toStringArray xs = xs"

definition toStringArrayInterface :: "string list \<Rightarrow> string list" where
  \<comment> \<open>Modelled from the spec: the helper \<^verbatim>\<open>toStringArrayInterface\<close> is missing; the
     converse direct conversion, from \<^verbatim>\<open>[]string\<close> to \<^verbatim>\<open>[]interface{}\<close>.\<close>
  "toStringArrayInterface xs = xs"

text \<open>Three functions the DNS forward zone handlers call are taken as parameters: the
  provider's helper \<^verbatim>\<open>urlfromclassparams\<close> (not among the sources), and
  \<^verbatim>\<open>url.Values.Encode\<close> and \<^verbatim>\<open>url.ParseQuery\<close> of Go's \<^verbatim>\<open>net/url\<close>
  (the error of \<^verbatim>\<open>ParseQuery\<close> is dropped by the handlers).\<close>

record library =
  urlfromclassparams :: "(string \<times> string) list \<Rightarrow> Values"
  Encode :: "Values \<Rightarrow> string"
  ParseQuery :: "string \<Rightarrow> Values"

definition newline :: string where
  "newline = [CHR 0x0A]"

text \<open>The block every Create, Update and Delete handler of the application pool and of
  the DNS forward zone ends with under the comment \<^verbatim>\<open>Reporting a failure\<close>: the
  message carries \<^verbatim>\<open>errmsg\<close> of the first element when it is a string, and is the
  generic one (with the handler's own ending) otherwise.\<close>

definition reportFailure :: "string \<Rightarrow> string \<Rightarrow> string \<Rightarrow> jobject list \<Rightarrow> Diagnostics" where
  "reportFailure what name ending b =
     (if length b > 0 then
        (case stringOk (b ! 0) ''errmsg'' of
           Some errMsg \<Rightarrow> Errorf (what @ name @ '' ('' @ errMsg @ '')'')
         | None \<Rightarrow> Errorf (what @ name @ ending))
      else Errorf (what @ name @ ending))"

section \<open>Application pool (resource\_application\_pool.go)\<close>

text \<open>The resource data, typed by the schema; \<open>ap_Id\<close> is \<^verbatim>\<open>d.Id()\<close>. Every
  handler is modelled in two parts: the handler itself, which builds the parameters and
  sends the request, and its answer, the block under \<^verbatim>\<open>if err == nil\<close> with the
  final \<^verbatim>\<open>return\<close>. A handler returns the requests it sent, the resource data and
  what the Go function returns.\<close>

record applicationpool =
  ap_Id :: string
  ap_application :: string
  ap_fqdn :: string
  ap_name :: string
  ap_ip_version :: string
  ap_lb_mode :: string
  ap_affinity :: bool
  ap_affinity_session_duration :: int
  ap_best_active_nodes :: int

definition notSupported :: string where
  "notSupported = ''Object not supported in this SOLIDserver version''"

text \<open>The fields Create and Update add after their own first parameters.\<close>

definition applicationpoolFields :: "applicationpool \<Rightarrow> Values \<Rightarrow> Values" where
  "applicationpoolFields d p0 =
     (let p = Add ''name'' (ap_name d) p0;
          p = Add ''appapplication_name'' (ap_application d) p;
          p = Add ''appapplication_fqdn'' (ap_fqdn d) p;
          p = Add ''type'' (ap_ip_version d) p;
          p = Add ''lb_mode'' (ap_lb_mode d) p;
          p = (if ap_affinity d = False then Add ''affinity_state'' ''0'' p
               else Add ''affinity_session_time'' (Itoa (ap_affinity_session_duration d))
                      (Add ''affinity_state'' ''1'' p));
          p = (if ap_lb_mode d = ''latency''
               then Add ''best_active_nodes'' (Itoa (ap_best_active_nodes d)) p else p)
      in p)"

definition applicationpoolCreateParameters :: "applicationpool \<Rightarrow> Values" where
  "applicationpoolCreateParameters d =
     applicationpoolFields d (Add ''add_flag'' ''new_only'' Map.empty)"

definition applicationpoolUpdateParameters :: "applicationpool \<Rightarrow> Values" where
  "applicationpoolUpdateParameters d =
     applicationpoolFields d
       (Add ''add_flag'' ''edit_only'' (Add ''apppool_id'' (ap_Id d) Map.empty))"

definition applicationpoolCreateAnswer :: "applicationpool \<Rightarrow> reply \<Rightarrow> applicationpool \<times> Diagnostics" where
  "applicationpoolCreateAnswer d r =
     (case err r of
        None \<Rightarrow>
          (case (if (StatusCode r = 200 \<or> StatusCode r = 201) \<and> length (buf r) > 0
                 then stringOk (buf r ! 0) ''ret_oid'' else None) of
             Some oid \<Rightarrow> (d\<lparr>ap_Id := oid\<rparr>, [])
           | None \<Rightarrow>
               (d, reportFailure ''Unable to create application pool: '' (ap_name d) newline (buf r)))
      | Some e \<Rightarrow> (d, FromErr (err r)))"

definition resourceapplicationpoolCreate ::
  "applicationpool \<Rightarrow> SOLIDserver \<Rightarrow> request list \<times> applicationpool \<times> Diagnostics" where
  "resourceapplicationpoolCreate d s =
     (let parameters = applicationpoolCreateParameters d in
      if Version s < 710 then ([], d, Errorf notSupported)
      else
        let rq = \<lparr>verb = ''post'', path = ''rest/app_pool_add'', parameters = parameters\<rparr>
        in ([rq], applicationpoolCreateAnswer d (Request s rq)))"

definition applicationpoolUpdateAnswer :: "applicationpool \<Rightarrow> reply \<Rightarrow> applicationpool \<times> Diagnostics" where
  "applicationpoolUpdateAnswer d r =
     (case err r of
        None \<Rightarrow>
          (case (if (StatusCode r = 200 \<or> StatusCode r = 201) \<and> length (buf r) > 0
                 then stringOk (buf r ! 0) ''ret_oid'' else None) of
             Some oid \<Rightarrow> (d\<lparr>ap_Id := oid\<rparr>, [])
           | None \<Rightarrow>
               (d, reportFailure ''Unable to update application pool: '' (ap_name d) newline (buf r)))
      | Some e \<Rightarrow> (d, FromErr (err r)))"

definition resourceapplicationpoolUpdate ::
  "applicationpool \<Rightarrow> SOLIDserver \<Rightarrow> request list \<times> applicationpool \<times> Diagnostics" where
  "resourceapplicationpoolUpdate d s =
     (let parameters = applicationpoolUpdateParameters d in
      if Version s < 710 then ([], d, Errorf notSupported)
      else
        let rq = \<lparr>verb = ''put'', path = ''rest/app_pool_add'', parameters = parameters\<rparr>
        in ([rq], applicationpoolUpdateAnswer d (Request s rq)))"

definition applicationpoolDeleteAnswer :: "applicationpool \<Rightarrow> reply \<Rightarrow> applicationpool \<times> Diagnostics" where
  "applicationpoolDeleteAnswer d r =
     (case err r of
        None \<Rightarrow>
          (if StatusCode r \<noteq> 200 \<and> StatusCode r \<noteq> 204
           then (d, reportFailure ''Unable to delete application pool: '' (ap_name d) [] (buf r))
           else (d\<lparr>ap_Id := []\<rparr>, []))
      | Some e \<Rightarrow> (d, FromErr (err r)))"

definition resourceapplicationpoolDelete ::
  "applicationpool \<Rightarrow> SOLIDserver \<Rightarrow> request list \<times> applicationpool \<times> Diagnostics" where
  "resourceapplicationpoolDelete d s =
     (let parameters = Add ''apppool_id'' (ap_Id d) Map.empty in
      if Version s < 710 then ([], d, Errorf notSupported)
      else
        let rq = \<lparr>verb = ''delete'', path = ''rest/app_pool_delete'', parameters = parameters\<rparr>
        in ([rq], applicationpoolDeleteAnswer d (Request s rq)))"

text \<open>The body of the success branch of Read: each \<^verbatim>\<open>d.Set\<close> with its unchecked
  assertions, in the order of the source.\<close>

definition applicationpoolReadFields :: "applicationpool \<Rightarrow> jobject \<Rightarrow> panic + applicationpool" where
  "applicationpoolReadFields d b =
     bind (stringOf b ''apppool_name'') (\<lambda>v1.
     bind (stringOf b ''appapplication_name'') (\<lambda>v2.
     bind (stringOf b ''appapplication_fqdn'') (\<lambda>v3.
     bind (stringOf b ''apppool_lb_mode'') (\<lambda>v4.
     bind (stringOf b ''apppool_affinity_state'') (\<lambda>st.
     bind (let d1 = d\<lparr>ap_name := v1, ap_application := v2, ap_fqdn := v3, ap_lb_mode := v4\<rparr> in
           if st = ''0'' then Inr (d1\<lparr>ap_affinity := False\<rparr>)
           else bind (stringOf b ''apppool_affinity_session_time'') (\<lambda>t.
                  Inr (d1\<lparr>ap_affinity := True, ap_affinity_session_duration := Atoi t\<rparr>))) (\<lambda>d2.
     bind (stringOf b ''apppool_best_active_nodes'') (\<lambda>n.
       if n \<noteq> [] then Inr (d2\<lparr>ap_best_active_nodes := Atoi n\<rparr>) else Inr d2)))))))"

definition applicationpoolReadAnswer ::
  "applicationpool \<Rightarrow> reply \<Rightarrow> panic + applicationpool \<times> Diagnostics" where
  "applicationpoolReadAnswer d r =
     (case err r of
        None \<Rightarrow>
          (if StatusCode r = 200 \<and> length (buf r) > 0
           then bind (applicationpoolReadFields d (buf r ! 0)) (\<lambda>d'. Inr (d', []))
           else Inr (d, Errorf (''Unable to find application pool: '' @ ap_name d @ newline)))
      | Some e \<Rightarrow> Inr (d, FromErr (err r)))"

definition resourceapplicationpoolRead ::
  "applicationpool \<Rightarrow> SOLIDserver \<Rightarrow> request list \<times> (panic + applicationpool \<times> Diagnostics)" where
  "resourceapplicationpoolRead d s =
     (let parameters = Add ''apppool_id'' (ap_Id d) Map.empty in
      if Version s < 710 then ([], Inr (d, Errorf notSupported))
      else
        let rq = \<lparr>verb = ''get'', path = ''rest/app_pool_info'', parameters = parameters\<rparr>
        in ([rq], applicationpoolReadAnswer d (Request s rq)))"

text \<open>Import sets \<^verbatim>\<open>affinity_state\<close>, which is not a key of the schema:
  \<^verbatim>\<open>d.Set\<close> returns an error there, which the handler drops, and writes nothing
  (the SDK panics on such an error only in its test mode, which is not modelled).
  Import returns \<^verbatim>\<open>([]*schema.ResourceData, error)\<close>.\<close>

definition applicationpoolImportFields :: "applicationpool \<Rightarrow> jobject \<Rightarrow> panic + applicationpool" where
  "applicationpoolImportFields d b =
     bind (stringOf b ''apppool_name'') (\<lambda>v1.
     bind (stringOf b ''appapplication_name'') (\<lambda>v2.
     bind (stringOf b ''appapplication_fqdn'') (\<lambda>v3.
     bind (stringOf b ''apppool_lb_mode'') (\<lambda>v4.
     bind (stringOf b ''apppool_affinity_state'') (\<lambda>st.
     bind (let d1 = d\<lparr>ap_name := v1, ap_application := v2, ap_fqdn := v3, ap_lb_mode := v4\<rparr> in
           if st = ''0'' then Inr d1
           else bind (stringOf b ''apppool_affinity_session_time'') (\<lambda>t.
                  Inr (d1\<lparr>ap_affinity_session_duration := Atoi t\<rparr>))) (\<lambda>d2.
     bind (stringOf b ''apppool_best_active_nodes'') (\<lambda>n.
       if n \<noteq> [] then Inr (d2\<lparr>ap_best_active_nodes := Atoi n\<rparr>)
       else Inr (d2\<lparr>ap_best_active_nodes := 0\<rparr>))))))))"

definition applicationpoolImportAnswer ::
  "applicationpool \<Rightarrow> reply \<Rightarrow> panic + applicationpool list \<times> error" where
  "applicationpoolImportAnswer d r =
     (case err r of
        None \<Rightarrow>
          (if StatusCode r = 200 \<and> length (buf r) > 0
           then bind (applicationpoolImportFields d (buf r ! 0)) (\<lambda>d'. Inr ([d'], None))
           else Inr ([], Some (''SOLIDServer - Unable to find and import application pool (oid): ''
                               @ ap_Id d @ newline)))
      | Some e \<Rightarrow> Inr ([], err r))"

definition resourceapplicationpoolImportState ::
  "applicationpool \<Rightarrow> SOLIDserver \<Rightarrow> request list \<times> (panic + applicationpool list \<times> error)" where
  "resourceapplicationpoolImportState d s =
     (let parameters = Add ''apppool_id'' (ap_Id d) Map.empty in
      if Version s < 710 then ([], Inr ([], Some (''SOLIDServer - '' @ notSupported)))
      else
        let rq = \<lparr>verb = ''get'', path = ''rest/app_pool_info'', parameters = parameters\<rparr>
        in ([rq], applicationpoolImportAnswer d (Request s rq)))"

section \<open>DNS forward zone\<close>

text \<open>The resource data, typed by the schema. \<open>fz_class_parameters\<close> is the
  \<^verbatim>\<open>map[string]interface{}\<close> of a string map: the handlers range over its
  entries, which the model keeps in a list and reads through \<open>map_of\<close>.\<close>

record forwardzone =
  fz_Id :: string
  fz_dnsserver :: string
  fz_dnsview :: string
  fz_name :: string
  fz_forward :: string
  fz_forwarders :: "string list"
  fz_class :: string
  fz_class_parameters :: "(string \<times> string) list"

text \<open>The loop of Create and Update that builds \<^verbatim>\<open>fwdList\<close>.\<close>

definition forwardersList :: "string list \<Rightarrow> string" where
  "forwardersList fwds = foldl (\<lambda>fwdList fwd. fwdList @ fwd @ '';'') [] (toStringArray fwds)"

text \<open>What Read and Import store under \<^verbatim>\<open>forwarders\<close> when the retrieved string is
  not empty.\<close>

definition forwardersOf :: "string \<Rightarrow> string list" where
  "forwardersOf v = toStringArrayInterface (Split (TrimSuffix v '';'') CHR '';'')"

text \<open>The parameters Create and Update add after their own first ones.\<close>

definition forwardzoneSettings :: "library \<Rightarrow> forwardzone \<Rightarrow> Values \<Rightarrow> Values" where
  "forwardzoneSettings lib d p0 =
     (let p = Add ''dnszone_class_name'' (fz_class d) p0;
          p = Add ''dnszone_forward'' (ToLower (fz_forward d)) p;
          p = Add ''dnszone_forwarders'' (forwardersList (fz_forwarders d)) p;
          classParameters = urlfromclassparams lib (fz_class_parameters d);
          p = Add ''dnszone_class_parameters'' (Encode lib classParameters) p
      in p)"

definition forwardzoneCreateParameters :: "library \<Rightarrow> forwardzone \<Rightarrow> Values" where
  "forwardzoneCreateParameters lib d =
     (let p = Add ''add_flag'' ''new_only'' Map.empty;
          p = Add ''dns_name'' (fz_dnsserver d) p;
          p = (if fz_dnsview d \<noteq> ''#'' then Add ''dnsview_name'' (fz_dnsview d) p else p);
          p = Add ''dnszone_name'' (fz_name d) p;
          p = Add ''dnszone_type'' ''forward'' p
      in forwardzoneSettings lib d p)"

definition forwardzoneUpdateParameters :: "library \<Rightarrow> forwardzone \<Rightarrow> Values" where
  "forwardzoneUpdateParameters lib d =
     (let p = Add ''dnszone_id'' (fz_Id d) Map.empty;
          p = Add ''add_flag'' ''edit_only'' p
      in forwardzoneSettings lib d p)"

definition forwardzoneCreateAnswer :: "forwardzone \<Rightarrow> reply \<Rightarrow> forwardzone \<times> Diagnostics" where
  "forwardzoneCreateAnswer d r =
     (case err r of
        None \<Rightarrow>
          (case (if (StatusCode r = 200 \<or> StatusCode r = 201) \<and> length (buf r) > 0
                 then stringOk (buf r ! 0) ''ret_oid'' else None) of
             Some oid \<Rightarrow> (d\<lparr>fz_Id := oid\<rparr>, [])
           | None \<Rightarrow>
               (d, reportFailure ''Unable to create DNS forward zone: '' (fz_name d) newline (buf r)))
      | Some e \<Rightarrow> (d, FromErr (err r)))"

definition resourcednsforwardzoneCreate ::
  "library \<Rightarrow> forwardzone \<Rightarrow> SOLIDserver \<Rightarrow> request list \<times> forwardzone \<times> Diagnostics" where
  "resourcednsforwardzoneCreate lib d s =
     (let parameters = forwardzoneCreateParameters lib d;
          rq = \<lparr>verb = ''post'', path = ''rest/dns_zone_add'', parameters = parameters\<rparr>
      in ([rq], forwardzoneCreateAnswer d (Request s rq)))"

definition forwardzoneUpdateAnswer :: "forwardzone \<Rightarrow> reply \<Rightarrow> forwardzone \<times> Diagnostics" where
  "forwardzoneUpdateAnswer d r =
     (case err r of
        None \<Rightarrow>
          (case (if (StatusCode r = 200 \<or> StatusCode r = 201) \<and> length (buf r) > 0
                 then stringOk (buf r ! 0) ''ret_oid'' else None) of
             Some oid \<Rightarrow> (d\<lparr>fz_Id := oid\<rparr>, [])
           | None \<Rightarrow>
               (d, reportFailure ''Unable to update DNS forward zone: '' (fz_name d) newline (buf r)))
      | Some e \<Rightarrow> (d, FromErr (err r)))"

definition resourcednsforwardzoneUpdate ::
  "library \<Rightarrow> forwardzone \<Rightarrow> SOLIDserver \<Rightarrow> request list \<times> forwardzone \<times> Diagnostics" where
  "resourcednsforwardzoneUpdate lib d s =
     (let parameters = forwardzoneUpdateParameters lib d;
          rq = \<lparr>verb = ''put'', path = ''rest/dns_zone_add'', parameters = parameters\<rparr>
      in ([rq], forwardzoneUpdateAnswer d (Request s rq)))"

definition forwardzoneDeleteAnswer :: "forwardzone \<Rightarrow> reply \<Rightarrow> forwardzone \<times> Diagnostics" where
  "forwardzoneDeleteAnswer d r =
     (case err r of
        None \<Rightarrow>
          (if StatusCode r \<noteq> 200 \<and> StatusCode r \<noteq> 204
           then (d, reportFailure ''Unable to delete DNS forward zone: '' (fz_name d) [] (buf r))
           else (d\<lparr>fz_Id := []\<rparr>, []))
      | Some e \<Rightarrow> (d, FromErr (err r)))"

definition resourcednsforwardzoneDelete ::
  "forwardzone \<Rightarrow> SOLIDserver \<Rightarrow> request list \<times> forwardzone \<times> Diagnostics" where
  "resourcednsforwardzoneDelete d s =
     (let parameters = Add ''dnszone_id'' (fz_Id d) Map.empty;
          rq = \<lparr>verb = ''delete'', path = ''rest/dns_zone_delete'', parameters = parameters\<rparr>
      in ([rq], forwardzoneDeleteAnswer d (Request s rq)))"

text \<open>The recomputation of \<^verbatim>\<open>class_parameters\<close> in Read and Import. First the
  key \<^verbatim>\<open>dnsptr\<close> is deleted from the retrieved values when it is there.\<close>

definition dropDnsptr :: "Values \<Rightarrow> Values" where
  "dropDnsptr retrieved =
     (if retrieved ''dnsptr'' \<noteq> None then retrieved(''dnsptr'' := None) else retrieved)"

text \<open>Then the loop over the current entries: \<^verbatim>\<open>rv[0]\<close> when the key was
  retrieved (a panic if \<^verbatim>\<open>rv\<close> were empty), the empty string otherwise.\<close>

fun computeClassParameters :: "(string \<times> string) list \<Rightarrow> Values \<Rightarrow> panic + (string \<times> string) list" where
  "computeClassParameters [] retrieved = Inr []"
| "computeClassParameters ((ck, cv) # current) retrieved =
     bind (case retrieved ck of
             Some rv \<Rightarrow> (case rv of [] \<Rightarrow> Inl IndexOutOfRange | v # _ \<Rightarrow> Inr v)
           | None \<Rightarrow> Inr []) (\<lambda>v.
     bind (computeClassParameters current retrieved) (\<lambda>computed. Inr ((ck, v) # computed)))"

definition forwardzoneReadFields :: "library \<Rightarrow> forwardzone \<Rightarrow> jobject \<Rightarrow> panic + forwardzone" where
  "forwardzoneReadFields lib d b =
     bind (stringOf b ''dns_name'') (\<lambda>v1.
     bind (stringOf b ''dnsview_name'') (\<lambda>v2.
     bind (stringOf b ''dnszone_name'') (\<lambda>v3.
     bind (stringOf b ''dnszone_forward'') (\<lambda>fwd.
     bind (stringOf b ''dnszone_forwarders'') (\<lambda>fwds.
     bind (stringOf b ''dnszone_class_name'') (\<lambda>cls.
     bind (stringOf b ''dnszone_class_parameters'') (\<lambda>cps.
       let d1 = d\<lparr>fz_dnsserver := v1, fz_dnsview := v2, fz_name := v3,
                   fz_forward := (if fwd = [] then ''none'' else ToLower fwd)\<rparr>;
           d2 = (if fwds \<noteq> [] then d1\<lparr>fz_forwarders := forwardersOf fwds\<rparr> else d1);
           d3 = d2\<lparr>fz_class := cls\<rparr>;
           currentClassParameters = fz_class_parameters d3;
           retrievedClassParameters = dropDnsptr (ParseQuery lib cps)
       in bind (computeClassParameters currentClassParameters retrievedClassParameters)
            (\<lambda>computedClassParameters.
               Inr (d3\<lparr>fz_class_parameters := computedClassParameters\<rparr>)))))))))"

definition forwardzoneReadAnswer ::
  "library \<Rightarrow> forwardzone \<Rightarrow> reply \<Rightarrow> panic + forwardzone \<times> Diagnostics" where
  "forwardzoneReadAnswer lib d r =
     (case err r of
        None \<Rightarrow>
          (if StatusCode r = 200 \<and> length (buf r) > 0
           then bind (forwardzoneReadFields lib d (buf r ! 0)) (\<lambda>d'. Inr (d', []))
           else Inr (d, Errorf (''Unable to find DNS forward zone: '' @ fz_name d @ newline)))
      | Some e \<Rightarrow> Inr (d, FromErr (err r)))"

definition resourcednsforwardzoneRead ::
  "library \<Rightarrow> forwardzone \<Rightarrow> SOLIDserver \<Rightarrow> request list \<times> (panic + forwardzone \<times> Diagnostics)" where
  "resourcednsforwardzoneRead lib d s =
     (let parameters = Add ''dnszone_id'' (fz_Id d) Map.empty;
          rq = \<lparr>verb = ''get'', path = ''rest/dns_zone_info'', parameters = parameters\<rparr>
      in ([rq], forwardzoneReadAnswer lib d (Request s rq)))"

text \<open>Import also asserts \<^verbatim>\<open>dnszone_type\<close> to set \<^verbatim>\<open>type\<close>, which is not a key
  of the schema: the assertion is evaluated, the dropped \<^verbatim>\<open>d.Set\<close> writes nothing.\<close>

definition forwardzoneImportFields :: "library \<Rightarrow> forwardzone \<Rightarrow> jobject \<Rightarrow> panic + forwardzone" where
  "forwardzoneImportFields lib d b =
     bind (stringOf b ''dns_name'') (\<lambda>v1.
     bind (stringOf b ''dnsview_name'') (\<lambda>v2.
     bind (stringOf b ''dnszone_name'') (\<lambda>v3.
     bind (stringOf b ''dnszone_type'') (\<lambda>v4.
     bind (stringOf b ''dnszone_forward'') (\<lambda>fwd.
     bind (stringOf b ''dnszone_forwarders'') (\<lambda>fwds.
     bind (stringOf b ''dnszone_class_name'') (\<lambda>cls.
     bind (stringOf b ''dnszone_class_parameters'') (\<lambda>cps.
       let d1 = d\<lparr>fz_dnsserver := v1, fz_dnsview := v2, fz_name := v3,
                   fz_forward := (if fwd = [] then ''none'' else ToLower fwd)\<rparr>;
           d2 = (if fwds \<noteq> [] then d1\<lparr>fz_forwarders := forwardersOf fwds\<rparr> else d1);
           d3 = d2\<lparr>fz_class := cls\<rparr>;
           currentClassParameters = fz_class_parameters d3;
           retrievedClassParameters = dropDnsptr (ParseQuery lib cps)
       in bind (computeClassParameters currentClassParameters retrievedClassParameters)
            (\<lambda>computedClassParameters.
               Inr (d3\<lparr>fz_class_parameters := computedClassParameters\<rparr>))))))))))"

definition forwardzoneImportAnswer ::
  "library \<Rightarrow> forwardzone \<Rightarrow> reply \<Rightarrow> panic + forwardzone list \<times> error" where
  "forwardzoneImportAnswer lib d r =
     (case err r of
        None \<Rightarrow>
          (if StatusCode r = 200 \<and> length (buf r) > 0
           then bind (forwardzoneImportFields lib d (buf r ! 0)) (\<lambda>d'. Inr ([d'], None))
           else Inr ([], Some (''SOLIDServer - Unable to find and import DNS forward zone (oid): ''
                               @ fz_Id d @ newline)))
      | Some e \<Rightarrow> Inr ([], err r))"

definition resourcednsforwardzoneImportState ::
  "library \<Rightarrow> forwardzone \<Rightarrow> SOLIDserver \<Rightarrow> request list \<times> (panic + forwardzone list \<times> error)" where
  "resourcednsforwardzoneImportState lib d s =
     (let parameters = Add ''dnszone_id'' (fz_Id d) Map.empty;
          rq = \<lparr>verb = ''get'', path = ''rest/dns_zone_info'', parameters = parameters\<rparr>
      in ([rq], forwardzoneImportAnswer lib d (Request s rq)))"

section \<open>IP MAC association\<close>

record ipmac =
  im_Id :: string
  im_space :: string
  im_address :: string
  im_mac :: string

definition ipmacCreateAnswer :: "ipmac \<Rightarrow> reply \<Rightarrow> ipmac \<times> Diagnostics" where
  "ipmacCreateAnswer d r =
     (case err r of
        None \<Rightarrow>
          (if (StatusCode r = 200 \<or> StatusCode r = 201) \<and> length (buf r) > 0
           then (case stringOk (buf r ! 0) ''ret_oid'' of
                   Some oid \<Rightarrow> (d\<lparr>im_Id := oid\<rparr>, [])
                 | None \<Rightarrow> (d, FromErr (err r)))
           else (d, Errorf (''Failed to create IP MAC association between ''
                            @ im_address d @ '' and '' @ im_mac d @ newline)))
      | Some e \<Rightarrow> (d, FromErr (err r)))"

definition resourceipmacCreate ::
  "ipmac \<Rightarrow> SOLIDserver \<Rightarrow> request list \<times> ipmac \<times> Diagnostics" where
  "resourceipmacCreate d s =
     (let p = Add ''site_name'' (im_space d) Map.empty;
          p = Add ''add_flag'' ''edit_only'' p;
          p = Add ''hostaddr'' (im_address d) p;
          p = Add ''mac_addr'' (ToLower (im_mac d)) p;
          parameters = Add ''keep_class_parameters'' ''1'' p;
          rq = \<lparr>verb = ''put'', path = ''rest/ip_add'', parameters = parameters\<rparr>
      in ([rq], ipmacCreateAnswer d (Request s rq)))"

definition ipmacDeleteAnswer :: "ipmac \<Rightarrow> reply \<Rightarrow> ipmac \<times> Diagnostics" where
  "ipmacDeleteAnswer d r =
     (case err r of
        None \<Rightarrow>
          (if (StatusCode r = 200 \<or> StatusCode r = 201) \<and> length (buf r) > 0
           then (case stringOk (buf r ! 0) ''ret_oid'' of
                   Some oid \<Rightarrow> (d\<lparr>im_Id := []\<rparr>, [])
                 | None \<Rightarrow> (d, FromErr (err r)))
           else (d, Errorf (''Failed to delete IP MAC association between ''
                            @ im_address d @ '' and '' @ im_mac d @ newline)))
      | Some e \<Rightarrow> (d, FromErr (err r)))"

definition resourceipmacDelete ::
  "ipmac \<Rightarrow> SOLIDserver \<Rightarrow> request list \<times> ipmac \<times> Diagnostics" where
  "resourceipmacDelete d s =
     (let p = Add ''site_name'' (im_space d) Map.empty;
          p = Add ''add_flag'' ''edit_only'' p;
          p = Add ''hostaddr'' (im_address d) p;
          p = Add ''mac_addr'' [] p;
          parameters = Add ''keep_class_parameters'' ''1'' p;
          rq = \<lparr>verb = ''put'', path = ''rest/ip_add'', parameters = parameters\<rparr>
      in ([rq], ipmacDeleteAnswer d (Request s rq)))"

text \<open>Read falls through to \<^verbatim>\<open>d.SetId("")\<close> from every branch under
  \<^verbatim>\<open>err == nil\<close> but the one that returns nil on a matching address.\<close>

definition ipmacReadAnswer :: "ipmac \<Rightarrow> reply \<Rightarrow> ipmac \<times> Diagnostics" where
  "ipmacReadAnswer d r =
     (case err r of
        None \<Rightarrow>
          (if (StatusCode r = 200 \<or> StatusCode r = 201) \<and> length (buf r) > 0
           then (case stringOk (buf r ! 0) ''mac_addr'' of
                   Some ipMac \<Rightarrow>
                     if ToLower ipMac = ToLower (im_mac d) then (d, [])
                     else (d\<lparr>im_Id := []\<rparr>, FromErr (err r))
                 | None \<Rightarrow> (d\<lparr>im_Id := []\<rparr>, FromErr (err r)))
           else (d\<lparr>im_Id := []\<rparr>, FromErr (err r)))
      | Some e \<Rightarrow> (d, FromErr (err r)))"

definition resourceipmacRead ::
  "ipmac \<Rightarrow> SOLIDserver \<Rightarrow> request list \<times> ipmac \<times> Diagnostics" where
  "resourceipmacRead d s =
     (let parameters = Add ''ip_id'' (im_Id d) Map.empty;
          rq = \<lparr>verb = ''get'', path = ''rest/ip_address_info'', parameters = parameters\<rparr>
      in ([rq], ipmacReadAnswer d (Request s rq)))"

section \<open>Example inputs\<close>

text \<open>A server of a given version that answers every request with the same status
  code and decoded body, and no transport error.\<close>

definition exampleServer :: "int \<Rightarrow> int \<Rightarrow> jobject list \<Rightarrow> SOLIDserver" where
  "exampleServer v code b =
     \<lparr>Version = v, Request = (\<lambda>rq. \<lparr>StatusCode = code, buf = b, err = None\<rparr>)\<rparr>"

definition exampleIpmac :: ipmac where
  "exampleIpmac = \<lparr>im_Id = ''42'', im_space = ''Local'', im_address = ''10.0.0.1'',
                    im_mac = ''00:11:22:33:44:55''\<rparr>"

definition examplePool :: applicationpool where
  "examplePool = \<lparr>ap_Id = ''7'', ap_application = ''app'', ap_fqdn = ''app.example.org'',
     ap_name = ''pool'', ap_ip_version = ''ipv4'', ap_lb_mode = ''round-robin'',
     ap_affinity = False, ap_affinity_session_duration = 300, ap_best_active_nodes = 1\<rparr>"

definition exampleZone :: forwardzone where
  "exampleZone = \<lparr>fz_Id = ''9'', fz_dnsserver = ''ns1'', fz_dnsview = ''#'',
     fz_name = ''example.org'', fz_forward = ''only'', fz_forwarders = [''10.0.0.53''],
     fz_class = [], fz_class_parameters = [(''a'', ''0''), (''dnsptr'', ''1''), (''c'', ''2'')]\<rparr>"

text \<open>Library functions that agree with Go's on the arguments of the examples: the
  class parameters of \<open>exampleZone\<close> encode to \<^verbatim>\<open>a=0&c=2&dnsptr=1\<close>, and the
  query \<^verbatim>\<open>a=1&dnsptr=2\<close> parses to two keys with one value each.\<close>

definition exampleLibrary :: library where
  "exampleLibrary =
     \<lparr>urlfromclassparams = (\<lambda>cp. foldl (\<lambda>m (k, v). Add k v m) Map.empty cp),
      Encode = (\<lambda>vs. ''a=0&c=2&dnsptr=1''),
      ParseQuery = (\<lambda>q. if q = ''a=1&dnsptr=2'' then [''a'' \<mapsto> [''1''], ''dnsptr'' \<mapsto> [''2'']]
                         else Map.empty)\<rparr>"

text \<open>The first element of an answer to the lookup of a DNS forward zone, and one of
  an application pool without session affinity, which holds no
  \<^verbatim>\<open>apppool_affinity_session_time\<close>.\<close>

definition exampleZoneObject :: jobject where
  "exampleZoneObject =
     [''dns_name'' \<mapsto> JString ''ns1'', ''dnsview_name'' \<mapsto> JString ''#'',
      ''dnszone_name'' \<mapsto> JString ''example.org'', ''dnszone_type'' \<mapsto> JString ''forward'',
      ''dnszone_forward'' \<mapsto> JString ''only'', ''dnszone_forwarders'' \<mapsto> JString ''10.0.0.53;'',
      ''dnszone_class_name'' \<mapsto> JString [],
      ''dnszone_class_parameters'' \<mapsto> JString ''a=1&dnsptr=2'']"

definition examplePoolObject :: jobject where
  "examplePoolObject =
     [''apppool_name'' \<mapsto> JString ''pool'', ''appapplication_name'' \<mapsto> JString ''app'',
      ''appapplication_fqdn'' \<mapsto> JString ''app.example.org'',
      ''apppool_lb_mode'' \<mapsto> JString ''round-robin'',
      ''apppool_affinity_state'' \<mapsto> JString ''0'',
      ''apppool_best_active_nodes'' \<mapsto> JString ''1'']"

section \<open>Basic facts\<close>

lemma bind_Inl [simp]: "bind (Inl p) f = Inl p"
  by (simp add: bind_def)

lemma bind_Inr [simp]: "bind (Inr x) f = f x"
  by (simp add: bind_def)

lemma stringOk_Some_iff: "stringOk b k = Some v \<longleftrightarrow> b k = Some (JString v)"
  by (auto simp add: stringOk_def split: option.splits jvalue.splits)

lemma bind_eq_Inr: "bind m f = Inr y \<longleftrightarrow> (\<exists>x. m = Inr x \<and> f x = Inr y)"
  by (cases m) simp_all

lemma stringOf_Inr_iff: "stringOf b k = Inr v \<longleftrightarrow> stringOk b k = Some v"
  by (simp add: stringOf_def split: option.splits)

lemma stringOf_string: "stringOk b k = Some v \<Longrightarrow> stringOf b k = Inr v"
  by (simp add: stringOf_def)

lemma Add_fresh: "m k = None \<Longrightarrow> Add k v m = m(k \<mapsto> [v])"
  by (simp add: Add_def)

text \<open>A handler that sent a request returns what its answer makes of the reply.\<close>

lemma applicationpoolCreate_sent:
  "fst (resourceapplicationpoolCreate d s) = [rq] \<Longrightarrow>
   snd (resourceapplicationpoolCreate d s) = applicationpoolCreateAnswer d (Request s rq)"
  by (auto simp add: resourceapplicationpoolCreate_def Let_def split: if_splits)

lemma applicationpoolUpdate_sent:
  "fst (resourceapplicationpoolUpdate d s) = [rq] \<Longrightarrow>
   snd (resourceapplicationpoolUpdate d s) = applicationpoolUpdateAnswer d (Request s rq)"
  by (auto simp add: resourceapplicationpoolUpdate_def Let_def split: if_splits)

lemma applicationpoolDelete_sent:
  "fst (resourceapplicationpoolDelete d s) = [rq] \<Longrightarrow>
   snd (resourceapplicationpoolDelete d s) = applicationpoolDeleteAnswer d (Request s rq)"
  by (auto simp add: resourceapplicationpoolDelete_def Let_def split: if_splits)

lemma applicationpoolRead_sent:
  "fst (resourceapplicationpoolRead d s) = [rq] \<Longrightarrow>
   snd (resourceapplicationpoolRead d s) = applicationpoolReadAnswer d (Request s rq)"
  by (auto simp add: resourceapplicationpoolRead_def Let_def split: if_splits)

lemma applicationpoolImport_sent:
  "fst (resourceapplicationpoolImportState d s) = [rq] \<Longrightarrow>
   snd (resourceapplicationpoolImportState d s) = applicationpoolImportAnswer d (Request s rq)"
  by (auto simp add: resourceapplicationpoolImportState_def Let_def split: if_splits)

lemma forwardzoneCreate_sent:
  "fst (resourcednsforwardzoneCreate lib d s) = [rq] \<Longrightarrow>
   snd (resourcednsforwardzoneCreate lib d s) = forwardzoneCreateAnswer d (Request s rq)"
  by (auto simp add: resourcednsforwardzoneCreate_def Let_def)

lemma forwardzoneUpdate_sent:
  "fst (resourcednsforwardzoneUpdate lib d s) = [rq] \<Longrightarrow>
   snd (resourcednsforwardzoneUpdate lib d s) = forwardzoneUpdateAnswer d (Request s rq)"
  by (auto simp add: resourcednsforwardzoneUpdate_def Let_def)

lemma forwardzoneDelete_sent:
  "fst (resourcednsforwardzoneDelete d s) = [rq] \<Longrightarrow>
   snd (resourcednsforwardzoneDelete d s) = forwardzoneDeleteAnswer d (Request s rq)"
  by (auto simp add: resourcednsforwardzoneDelete_def Let_def)

lemma forwardzoneRead_sent:
  "fst (resourcednsforwardzoneRead lib d s) = [rq] \<Longrightarrow>
   snd (resourcednsforwardzoneRead lib d s) = forwardzoneReadAnswer lib d (Request s rq)"
  by (auto simp add: resourcednsforwardzoneRead_def Let_def)

lemma forwardzoneImport_sent:
  "fst (resourcednsforwardzoneImportState lib d s) = [rq] \<Longrightarrow>
   snd (resourcednsforwardzoneImportState lib d s) = forwardzoneImportAnswer lib d (Request s rq)"
  by (auto simp add: resourcednsforwardzoneImportState_def Let_def)

lemma ipmacCreate_sent:
  "fst (resourceipmacCreate d s) = [rq] \<Longrightarrow>
   snd (resourceipmacCreate d s) = ipmacCreateAnswer d (Request s rq)"
  by (auto simp add: resourceipmacCreate_def Let_def)

lemma ipmacDelete_sent:
  "fst (resourceipmacDelete d s) = [rq] \<Longrightarrow>
   snd (resourceipmacDelete d s) = ipmacDeleteAnswer d (Request s rq)"
  by (auto simp add: resourceipmacDelete_def Let_def)

lemma ipmacRead_sent:
  "fst (resourceipmacRead d s) = [rq] \<Longrightarrow>
   snd (resourceipmacRead d s) = ipmacReadAnswer d (Request s rq)"
  by (auto simp add: resourceipmacRead_def Let_def)

text \<open>The example server answers every handler's request alike.\<close>

lemma exampleServer_Request [simp]:
  "Request (exampleServer v code b) rq = \<lparr>StatusCode = code, buf = b, err = None\<rparr>"
  by (simp add: exampleServer_def)

lemma exampleServer_Version [simp]: "Version (exampleServer v code b) = v"
  by (simp add: exampleServer_def)

section \<open>Malformed answers to Create and Update\<close>

text \<open>The application pool and the DNS forward zone report an error whenever the
  request went through and the answer holds no id.\<close>

lemma create_update_malformed_reported:
  assumes "err (Request s rq) = None"
    and "buf (Request s rq) = [] \<or> stringOk (buf (Request s rq) ! 0) ''ret_oid'' = None"
  shows "fst (resourceapplicationpoolCreate d s) = [rq]
           \<Longrightarrow> snd (snd (resourceapplicationpoolCreate d s)) \<noteq> []"
    and "fst (resourceapplicationpoolUpdate d s) = [rq]
           \<Longrightarrow> snd (snd (resourceapplicationpoolUpdate d s)) \<noteq> []"
    and "fst (resourcednsforwardzoneCreate lib z s) = [rq]
           \<Longrightarrow> snd (snd (resourcednsforwardzoneCreate lib z s)) \<noteq> []"
    and "fst (resourcednsforwardzoneUpdate lib z s) = [rq]
           \<Longrightarrow> snd (snd (resourcednsforwardzoneUpdate lib z s)) \<noteq> []"
proof -
  from assms have "snd (applicationpoolCreateAnswer d (Request s rq)) \<noteq> []"
    and "snd (applicationpoolUpdateAnswer d (Request s rq)) \<noteq> []"
    and "snd (forwardzoneCreateAnswer z (Request s rq)) \<noteq> []"
    and "snd (forwardzoneUpdateAnswer z (Request s rq)) \<noteq> []"
    by (auto simp add: applicationpoolCreateAnswer_def applicationpoolUpdateAnswer_def
          forwardzoneCreateAnswer_def forwardzoneUpdateAnswer_def reportFailure_def Errorf_def
          split: option.splits)
  then show "fst (resourceapplicationpoolCreate d s) = [rq]
           \<Longrightarrow> snd (snd (resourceapplicationpoolCreate d s)) \<noteq> []"
    and "fst (resourceapplicationpoolUpdate d s) = [rq]
           \<Longrightarrow> snd (snd (resourceapplicationpoolUpdate d s)) \<noteq> []"
    and "fst (resourcednsforwardzoneCreate lib z s) = [rq]
           \<Longrightarrow> snd (snd (resourcednsforwardzoneCreate lib z s)) \<noteq> []"
    and "fst (resourcednsforwardzoneUpdate lib z s) = [rq]
           \<Longrightarrow> snd (snd (resourcednsforwardzoneUpdate lib z s)) \<noteq> []"
    by (simp_all add: applicationpoolCreate_sent applicationpoolUpdate_sent
          forwardzoneCreate_sent forwardzoneUpdate_sent)
qed

text \<open>C1 (a Create or Update whose request went through, and whose answer is an
  empty array or has a first element without a string \<^verbatim>\<open>ret_oid\<close>, returns an error
  and never success) does not hold of Create of the IP MAC association. Answered with
  status 200 and the body \<^verbatim>\<open>[{}]\<close>, it sends its request, stores no id and returns
  nil diagnostics: the final \<^verbatim>\<open>diag.FromErr(err)\<close>, under the comment
  \<^verbatim>\<open>Reporting a failure\<close>, is reached with a nil error.\<close>

theorem ipmacCreate_without_oid_returns_nil:
  "resourceipmacCreate (exampleIpmac\<lparr>im_Id := []\<rparr>) (exampleServer 710 200 [Map.empty])
     = ([\<lparr>verb = ''put'', path = ''rest/ip_add'',
           parameters = [''site_name'' \<mapsto> [''Local''], ''add_flag'' \<mapsto> [''edit_only''],
                         ''hostaddr'' \<mapsto> [''10.0.0.1''],
                         ''mac_addr'' \<mapsto> [ToLower ''00:11:22:33:44:55''],
                         ''keep_class_parameters'' \<mapsto> [''1'']]\<rparr>],
        exampleIpmac\<lparr>im_Id := []\<rparr>, [])"
  by (simp add: resourceipmacCreate_def ipmacCreateAnswer_def exampleIpmac_def Let_def
        stringOk_def FromErr_def Add_fresh)

section \<open>Read of an object that cannot be resolved\<close>

text \<open>C2, as amended. When the request of Read went through without transport error
  and the status is not 200 or the decoded array is empty, Read of the application pool
  and of the DNS forward zone leaves the resource data, the id included, as it was and
  returns an error diagnostic. Read of the IP MAC association differs: when the status
  is neither 200 nor 201, or the array is empty, or \<^verbatim>\<open>mac_addr\<close> of the first
  element is not a string that matches the stored address up to case, it sets the id to
  the empty string and returns nil diagnostics.\<close>

theorem read_unresolved:
  "(fst (resourceapplicationpoolRead d s) = [rq] \<and> err (Request s rq) = None \<and>
      (StatusCode (Request s rq) \<noteq> 200 \<or> buf (Request s rq) = [])
    \<longrightarrow> snd (resourceapplicationpoolRead d s)
          = Inr (d, [''Unable to find application pool: '' @ ap_name d @ newline]))
   \<and> (fst (resourcednsforwardzoneRead lib z s') = [rq'] \<and> err (Request s' rq') = None \<and>
      (StatusCode (Request s' rq') \<noteq> 200 \<or> buf (Request s' rq') = [])
    \<longrightarrow> snd (resourcednsforwardzoneRead lib z s')
          = Inr (z, [''Unable to find DNS forward zone: '' @ fz_name z @ newline]))
   \<and> (fst (resourceipmacRead m s'') = [rq''] \<and> err (Request s'' rq'') = None \<and>
      ((StatusCode (Request s'' rq'') \<noteq> 200 \<and> StatusCode (Request s'' rq'') \<noteq> 201)
       \<or> buf (Request s'' rq'') = []
       \<or> (\<forall>v. hd (buf (Request s'' rq'')) ''mac_addr'' = Some (JString v)
                \<longrightarrow> ToLower v \<noteq> ToLower (im_mac m)))
    \<longrightarrow> snd (resourceipmacRead m s'') = (m\<lparr>im_Id := []\<rparr>, []))"
proof (intro conjI impI)
  assume a: "fst (resourceapplicationpoolRead d s) = [rq] \<and> err (Request s rq) = None \<and>
      (StatusCode (Request s rq) \<noteq> 200 \<or> buf (Request s rq) = [])"
  then have "snd (resourceapplicationpoolRead d s) = applicationpoolReadAnswer d (Request s rq)"
    by (simp add: applicationpoolRead_sent)
  with a show "snd (resourceapplicationpoolRead d s)
          = Inr (d, [''Unable to find application pool: '' @ ap_name d @ newline])"
    by (auto simp add: applicationpoolReadAnswer_def Errorf_def)
next
  assume a: "fst (resourcednsforwardzoneRead lib z s') = [rq'] \<and> err (Request s' rq') = None \<and>
      (StatusCode (Request s' rq') \<noteq> 200 \<or> buf (Request s' rq') = [])"
  then have "snd (resourcednsforwardzoneRead lib z s') = forwardzoneReadAnswer lib z (Request s' rq')"
    by (simp add: forwardzoneRead_sent)
  with a show "snd (resourcednsforwardzoneRead lib z s')
          = Inr (z, [''Unable to find DNS forward zone: '' @ fz_name z @ newline])"
    by (auto simp add: forwardzoneReadAnswer_def Errorf_def)
next
  assume a: "fst (resourceipmacRead m s'') = [rq''] \<and> err (Request s'' rq'') = None \<and>
      ((StatusCode (Request s'' rq'') \<noteq> 200 \<and> StatusCode (Request s'' rq'') \<noteq> 201)
       \<or> buf (Request s'' rq'') = []
       \<or> (\<forall>v. hd (buf (Request s'' rq'')) ''mac_addr'' = Some (JString v)
                \<longrightarrow> ToLower v \<noteq> ToLower (im_mac m)))"
  then have "snd (resourceipmacRead m s'') = ipmacReadAnswer m (Request s'' rq'')"
    by (simp add: ipmacRead_sent)
  with a show "snd (resourceipmacRead m s'') = (m\<lparr>im_Id := []\<rparr>, [])"
    by (auto simp add: ipmacReadAnswer_def FromErr_def stringOk_Some_iff hd_conv_nth
          split: option.splits)
qed

theorem read_unresolved_witness:
  "snd (resourceapplicationpoolRead examplePool (exampleServer 710 404 []))
     = Inr (examplePool, [''Unable to find application pool: pool'' @ newline])
   \<and> snd (resourcednsforwardzoneRead exampleLibrary exampleZone (exampleServer 710 404 []))
     = Inr (exampleZone, [''Unable to find DNS forward zone: example.org'' @ newline])
   \<and> snd (resourceipmacRead exampleIpmac
            (exampleServer 710 200 [[''mac_addr'' \<mapsto> JString ''AA:BB:CC:DD:EE:FF'']]))
     = (exampleIpmac\<lparr>im_Id := []\<rparr>, [])"
proof -
  let ?s = "exampleServer 710 404 []"
  let ?t = "exampleServer 710 200 [[''mac_addr'' \<mapsto> JString ''AA:BB:CC:DD:EE:FF'']]"
  note inst = read_unresolved [of examplePool ?s
      "hd (fst (resourceapplicationpoolRead examplePool ?s))"
      exampleLibrary exampleZone ?s
      "hd (fst (resourcednsforwardzoneRead exampleLibrary exampleZone ?s))"
      exampleIpmac ?t "hd (fst (resourceipmacRead exampleIpmac ?t))"]
  have "snd (resourceapplicationpoolRead examplePool ?s)
     = Inr (examplePool, [''Unable to find application pool: '' @ ap_name examplePool @ newline])"
    by (rule inst [THEN conjunct1, THEN mp])
       (simp add: resourceapplicationpoolRead_def Let_def)
  moreover have "snd (resourcednsforwardzoneRead exampleLibrary exampleZone ?s)
     = Inr (exampleZone, [''Unable to find DNS forward zone: '' @ fz_name exampleZone @ newline])"
    by (rule inst [THEN conjunct2, THEN conjunct1, THEN mp])
       (simp add: resourcednsforwardzoneRead_def Let_def)
  moreover have "snd (resourceipmacRead exampleIpmac ?t) = (exampleIpmac\<lparr>im_Id := []\<rparr>, [])"
    by (rule inst [THEN conjunct2, THEN conjunct2, THEN mp])
       (simp add: resourceipmacRead_def Let_def exampleIpmac_def ToLower_def lowerChar_def)
  ultimately show ?thesis
    by (simp add: examplePool_def exampleZone_def)
qed

text \<open>The claim as stated fails on the IP MAC association: after a 404 with an empty
  array the stored id 42 is replaced by the empty string and nil is returned.\<close>

theorem ipmacRead_clears_id:
  "resourceipmacRead exampleIpmac (exampleServer 710 404 [])
     = ([\<lparr>verb = ''get'', path = ''rest/ip_address_info'', parameters = [''ip_id'' \<mapsto> [''42'']]\<rparr>],
        \<lparr>im_Id = [], im_space = ''Local'', im_address = ''10.0.0.1'',
          im_mac = ''00:11:22:33:44:55''\<rparr>, [])"
  by (simp add: resourceipmacRead_def ipmacReadAnswer_def exampleIpmac_def Let_def
        FromErr_def Add_fresh)

section \<open>Delete\<close>

text \<open>C3, as amended. Delete of the application pool (on a server of version 710 or
  later) and of the DNS forward zone sends one request, with the verb delete, to the
  delete path of the resource, carrying the id under the id key of the resource; when
  the request went through without transport error, it returns nil exactly when the
  status is 200 or 204. Delete of the IP MAC association is an edit: it sends the verb
  put to \<^verbatim>\<open>rest/ip_add\<close> with the space, the address and an empty
  \<^verbatim>\<open>mac_addr\<close>, not the id; it clears the id and returns nil when the status is 200
  or 201 and the first element holds a string \<^verbatim>\<open>ret_oid\<close>, and returns an error
  when the status is neither 200 nor 201 or the array is empty.\<close>

theorem delete_amended:
  "(710 \<le> Version s \<longrightarrow>
      fst (resourceapplicationpoolDelete d s)
        = [\<lparr>verb = ''delete'', path = ''rest/app_pool_delete'',
             parameters = [''apppool_id'' \<mapsto> [ap_Id d]]\<rparr>])
   \<and> (fst (resourceapplicationpoolDelete d s) = [rq] \<and> err (Request s rq) = None \<longrightarrow>
        (snd (snd (resourceapplicationpoolDelete d s)) = []
           \<longleftrightarrow> StatusCode (Request s rq) = 200 \<or> StatusCode (Request s rq) = 204))
   \<and> fst (resourcednsforwardzoneDelete z s')
        = [\<lparr>verb = ''delete'', path = ''rest/dns_zone_delete'',
             parameters = [''dnszone_id'' \<mapsto> [fz_Id z]]\<rparr>]
   \<and> (fst (resourcednsforwardzoneDelete z s') = [rq'] \<and> err (Request s' rq') = None \<longrightarrow>
        (snd (snd (resourcednsforwardzoneDelete z s')) = []
           \<longleftrightarrow> StatusCode (Request s' rq') = 200 \<or> StatusCode (Request s' rq') = 204))
   \<and> fst (resourceipmacDelete m s'')
        = [\<lparr>verb = ''put'', path = ''rest/ip_add'',
             parameters = [''site_name'' \<mapsto> [im_space m], ''add_flag'' \<mapsto> [''edit_only''],
                           ''hostaddr'' \<mapsto> [im_address m], ''mac_addr'' \<mapsto> [[]],
                           ''keep_class_parameters'' \<mapsto> [''1'']]\<rparr>]
   \<and> (fst (resourceipmacDelete m s'') = [rq''] \<and> err (Request s'' rq'') = None \<and>
        (StatusCode (Request s'' rq'') = 200 \<or> StatusCode (Request s'' rq'') = 201) \<and>
        buf (Request s'' rq'') = b # bs \<and> b ''ret_oid'' = Some (JString oid)
      \<longrightarrow> snd (resourceipmacDelete m s'') = (m\<lparr>im_Id := []\<rparr>, []))
   \<and> (fst (resourceipmacDelete m s'') = [rq''] \<and> err (Request s'' rq'') = None \<and>
        ((StatusCode (Request s'' rq'') \<noteq> 200 \<and> StatusCode (Request s'' rq'') \<noteq> 201)
         \<or> buf (Request s'' rq'') = [])
      \<longrightarrow> snd (resourceipmacDelete m s'')
            = (m, [''Failed to delete IP MAC association between '' @ im_address m
                     @ '' and '' @ im_mac m @ newline]))"
proof (intro conjI impI)
  assume "710 \<le> Version s"
  then show "fst (resourceapplicationpoolDelete d s)
        = [\<lparr>verb = ''delete'', path = ''rest/app_pool_delete'',
             parameters = [''apppool_id'' \<mapsto> [ap_Id d]]\<rparr>]"
    by (simp add: resourceapplicationpoolDelete_def Let_def Add_fresh)
next
  assume a: "fst (resourceapplicationpoolDelete d s) = [rq] \<and> err (Request s rq) = None"
  then have "snd (resourceapplicationpoolDelete d s) = applicationpoolDeleteAnswer d (Request s rq)"
    by (simp add: applicationpoolDelete_sent)
  with a show "snd (snd (resourceapplicationpoolDelete d s)) = []
           \<longleftrightarrow> StatusCode (Request s rq) = 200 \<or> StatusCode (Request s rq) = 204"
    by (auto simp add: applicationpoolDeleteAnswer_def reportFailure_def Errorf_def
          split: option.splits)
next
  show "fst (resourcednsforwardzoneDelete z s')
        = [\<lparr>verb = ''delete'', path = ''rest/dns_zone_delete'',
             parameters = [''dnszone_id'' \<mapsto> [fz_Id z]]\<rparr>]"
    by (simp add: resourcednsforwardzoneDelete_def Let_def Add_fresh)
next
  assume a: "fst (resourcednsforwardzoneDelete z s') = [rq'] \<and> err (Request s' rq') = None"
  then have "snd (resourcednsforwardzoneDelete z s') = forwardzoneDeleteAnswer z (Request s' rq')"
    by (simp add: forwardzoneDelete_sent)
  with a show "snd (snd (resourcednsforwardzoneDelete z s')) = []
           \<longleftrightarrow> StatusCode (Request s' rq') = 200 \<or> StatusCode (Request s' rq') = 204"
    by (auto simp add: forwardzoneDeleteAnswer_def reportFailure_def Errorf_def
          split: option.splits)
next
  show "fst (resourceipmacDelete m s'')
        = [\<lparr>verb = ''put'', path = ''rest/ip_add'',
             parameters = [''site_name'' \<mapsto> [im_space m], ''add_flag'' \<mapsto> [''edit_only''],
                           ''hostaddr'' \<mapsto> [im_address m], ''mac_addr'' \<mapsto> [[]],
                           ''keep_class_parameters'' \<mapsto> [''1'']]\<rparr>]"
    by (simp add: resourceipmacDelete_def Let_def Add_fresh)
next
  assume a: "fst (resourceipmacDelete m s'') = [rq''] \<and> err (Request s'' rq'') = None \<and>
        (StatusCode (Request s'' rq'') = 200 \<or> StatusCode (Request s'' rq'') = 201) \<and>
        buf (Request s'' rq'') = b # bs \<and> b ''ret_oid'' = Some (JString oid)"
  then have "snd (resourceipmacDelete m s'') = ipmacDeleteAnswer m (Request s'' rq'')"
    by (simp add: ipmacDelete_sent)
  with a show "snd (resourceipmacDelete m s'') = (m\<lparr>im_Id := []\<rparr>, [])"
    by (auto simp add: ipmacDeleteAnswer_def stringOk_def)
next
  assume a: "fst (resourceipmacDelete m s'') = [rq''] \<and> err (Request s'' rq'') = None \<and>
        ((StatusCode (Request s'' rq'') \<noteq> 200 \<and> StatusCode (Request s'' rq'') \<noteq> 201)
         \<or> buf (Request s'' rq'') = [])"
  then have "snd (resourceipmacDelete m s'') = ipmacDeleteAnswer m (Request s'' rq'')"
    by (simp add: ipmacDelete_sent)
  with a show "snd (resourceipmacDelete m s'')
            = (m, [''Failed to delete IP MAC association between '' @ im_address m
                     @ '' and '' @ im_mac m @ newline])"
    by (auto simp add: ipmacDeleteAnswer_def Errorf_def)
qed

theorem delete_amended_witness:
  "fst (resourceapplicationpoolDelete examplePool (exampleServer 710 204 []))
     = [\<lparr>verb = ''delete'', path = ''rest/app_pool_delete'',
          parameters = [''apppool_id'' \<mapsto> [''7'']]\<rparr>]
   \<and> snd (snd (resourceapplicationpoolDelete examplePool (exampleServer 710 204 []))) = []
   \<and> snd (snd (resourceapplicationpoolDelete examplePool (exampleServer 710 201 []))) \<noteq> []
   \<and> snd (snd (resourcednsforwardzoneDelete exampleZone (exampleServer 710 200 []))) = []
   \<and> snd (snd (resourcednsforwardzoneDelete exampleZone (exampleServer 710 500 []))) \<noteq> []
   \<and> snd (resourceipmacDelete exampleIpmac (exampleServer 710 201 [[''ret_oid'' \<mapsto> JString ''42'']]))
     = (exampleIpmac\<lparr>im_Id := []\<rparr>, [])
   \<and> snd (resourceipmacDelete exampleIpmac (exampleServer 710 204 []))
     = (exampleIpmac, [''Failed to delete IP MAC association between 10.0.0.1 and 00:11:22:33:44:55''
                         @ newline])"
proof -
  let ?ok = "exampleServer 710 204 []"
  let ?ok' = "exampleServer 710 200 []"
  let ?no = "exampleServer 710 201 []"
  let ?no' = "exampleServer 710 500 []"
  let ?mok = "exampleServer 710 201 [[''ret_oid'' \<mapsto> JString ''42'']]"
  note yes = delete_amended [of ?ok examplePool
      "hd (fst (resourceapplicationpoolDelete examplePool ?ok))"
      exampleZone ?ok' "hd (fst (resourcednsforwardzoneDelete exampleZone ?ok'))"
      exampleIpmac ?mok "hd (fst (resourceipmacDelete exampleIpmac ?mok))"
      "[''ret_oid'' \<mapsto> JString ''42'']" "[]" "''42''"]
  note no = delete_amended [of ?no examplePool
      "hd (fst (resourceapplicationpoolDelete examplePool ?no))"
      exampleZone ?no' "hd (fst (resourcednsforwardzoneDelete exampleZone ?no'))"
      exampleIpmac ?ok "hd (fst (resourceipmacDelete exampleIpmac ?ok))"]
  have 1: "fst (resourceapplicationpoolDelete examplePool ?ok)
     = [\<lparr>verb = ''delete'', path = ''rest/app_pool_delete'',
          parameters = [''apppool_id'' \<mapsto> [ap_Id examplePool]]\<rparr>]"
    by (rule yes [THEN conjunct1, THEN mp]) simp
  have 2: "(snd (snd (resourceapplicationpoolDelete examplePool ?ok)) = []) =
       (StatusCode (Request ?ok (hd (fst (resourceapplicationpoolDelete examplePool ?ok)))) = 200
        \<or> StatusCode (Request ?ok (hd (fst (resourceapplicationpoolDelete examplePool ?ok)))) = 204)"
    by (rule yes [THEN conjunct2, THEN conjunct1, THEN mp])
       (simp add: resourceapplicationpoolDelete_def Let_def)
  have 3: "(snd (snd (resourceapplicationpoolDelete examplePool ?no)) = []) =
       (StatusCode (Request ?no (hd (fst (resourceapplicationpoolDelete examplePool ?no)))) = 200
        \<or> StatusCode (Request ?no (hd (fst (resourceapplicationpoolDelete examplePool ?no)))) = 204)"
    by (rule no [THEN conjunct2, THEN conjunct1, THEN mp])
       (simp add: resourceapplicationpoolDelete_def Let_def)
  have 4: "(snd (snd (resourcednsforwardzoneDelete exampleZone ?ok')) = []) =
       (StatusCode (Request ?ok' (hd (fst (resourcednsforwardzoneDelete exampleZone ?ok')))) = 200
        \<or> StatusCode (Request ?ok' (hd (fst (resourcednsforwardzoneDelete exampleZone ?ok')))) = 204)"
    by (rule yes [THEN conjunct2, THEN conjunct2, THEN conjunct2, THEN conjunct1, THEN mp])
       (simp add: resourcednsforwardzoneDelete_def Let_def)
  have 5: "(snd (snd (resourcednsforwardzoneDelete exampleZone ?no')) = []) =
       (StatusCode (Request ?no' (hd (fst (resourcednsforwardzoneDelete exampleZone ?no')))) = 200
        \<or> StatusCode (Request ?no' (hd (fst (resourcednsforwardzoneDelete exampleZone ?no')))) = 204)"
    by (rule no [THEN conjunct2, THEN conjunct2, THEN conjunct2, THEN conjunct1, THEN mp])
       (simp add: resourcednsforwardzoneDelete_def Let_def)
  have 6: "snd (resourceipmacDelete exampleIpmac ?mok) = (exampleIpmac\<lparr>im_Id := []\<rparr>, [])"
    by (rule yes [THEN conjunct2, THEN conjunct2, THEN conjunct2, THEN conjunct2,
                  THEN conjunct2, THEN conjunct1, THEN mp])
       (simp add: resourceipmacDelete_def Let_def)
  have 7: "snd (resourceipmacDelete exampleIpmac ?ok)
     = (exampleIpmac, [''Failed to delete IP MAC association between '' @ im_address exampleIpmac
                         @ '' and '' @ im_mac exampleIpmac @ newline])"
    by (rule no [THEN conjunct2, THEN conjunct2, THEN conjunct2, THEN conjunct2,
                  THEN conjunct2, THEN conjunct2, THEN mp])
       (simp add: resourceipmacDelete_def Let_def)
  from 1 2 3 4 5 6 7 show ?thesis
    by (simp add: examplePool_def exampleIpmac_def)
qed

text \<open>The claim as stated fails on the IP MAC association: Delete sends the verb put
  to the add path without the id, and reports a failure on status 204.\<close>

theorem ipmacDelete_is_an_edit:
  "resourceipmacDelete exampleIpmac (exampleServer 710 204 [])
     = ([\<lparr>verb = ''put'', path = ''rest/ip_add'',
           parameters = [''site_name'' \<mapsto> [''Local''], ''add_flag'' \<mapsto> [''edit_only''],
                         ''hostaddr'' \<mapsto> [''10.0.0.1''], ''mac_addr'' \<mapsto> [[]],
                         ''keep_class_parameters'' \<mapsto> [''1'']]\<rparr>],
        exampleIpmac,
        [''Failed to delete IP MAC association between 10.0.0.1 and 00:11:22:33:44:55'' @ newline])"
  by (simp add: resourceipmacDelete_def ipmacDeleteAnswer_def exampleIpmac_def Let_def
        Errorf_def Add_fresh)

section \<open>The answer to Create\<close>

text \<open>C4, as amended. Let Create have sent its request and the reply \<open>r\<close> carry no
  transport error. For the application pool and the DNS forward zone: if the status is
  200 or 201 and the first element of the decoded array holds a string
  \<^verbatim>\<open>ret_oid\<close>, Create stores that id and returns nil; otherwise it returns one error
  diagnostic, which carries \<^verbatim>\<open>errmsg\<close> of the first element when that is a string
  and is the generic message when the array is empty or \<^verbatim>\<open>errmsg\<close> is not a
  string. Create of the IP MAC association stores the id and returns nil in the same
  case, and returns its one generic message, whatever the array holds, when the status
  is neither 200 nor 201 or the array is empty.\<close>

theorem create_amended:
  "(fst (resourceapplicationpoolCreate d s) = [rq] \<and> Request s rq = r \<and> err r = None \<longrightarrow>
      ((StatusCode r = 200 \<or> StatusCode r = 201) \<and> buf r = b # bs \<and>
         b ''ret_oid'' = Some (JString oid)
       \<longrightarrow> snd (resourceapplicationpoolCreate d s) = (d\<lparr>ap_Id := oid\<rparr>, []))
    \<and> (\<not> ((StatusCode r = 200 \<or> StatusCode r = 201) \<and> buf r \<noteq> [] \<and>
            stringOk (hd (buf r)) ''ret_oid'' \<noteq> None) \<and>
         buf r = b # bs \<and> b ''errmsg'' = Some (JString msg)
       \<longrightarrow> snd (resourceapplicationpoolCreate d s)
             = (d, [''Unable to create application pool: '' @ ap_name d @ '' ('' @ msg @ '')'']))
    \<and> (\<not> ((StatusCode r = 200 \<or> StatusCode r = 201) \<and> buf r \<noteq> [] \<and>
            stringOk (hd (buf r)) ''ret_oid'' \<noteq> None) \<and>
         (buf r = [] \<or> stringOk (hd (buf r)) ''errmsg'' = None)
       \<longrightarrow> snd (resourceapplicationpoolCreate d s)
             = (d, [''Unable to create application pool: '' @ ap_name d @ newline])))
   \<and> (fst (resourcednsforwardzoneCreate lib z s') = [rq'] \<and> Request s' rq' = r' \<and> err r' = None \<longrightarrow>
      ((StatusCode r' = 200 \<or> StatusCode r' = 201) \<and> buf r' = b' # bs' \<and>
         b' ''ret_oid'' = Some (JString oid')
       \<longrightarrow> snd (resourcednsforwardzoneCreate lib z s') = (z\<lparr>fz_Id := oid'\<rparr>, []))
    \<and> (\<not> ((StatusCode r' = 200 \<or> StatusCode r' = 201) \<and> buf r' \<noteq> [] \<and>
            stringOk (hd (buf r')) ''ret_oid'' \<noteq> None) \<and>
         buf r' = b' # bs' \<and> b' ''errmsg'' = Some (JString msg')
       \<longrightarrow> snd (resourcednsforwardzoneCreate lib z s')
             = (z, [''Unable to create DNS forward zone: '' @ fz_name z @ '' ('' @ msg' @ '')'']))
    \<and> (\<not> ((StatusCode r' = 200 \<or> StatusCode r' = 201) \<and> buf r' \<noteq> [] \<and>
            stringOk (hd (buf r')) ''ret_oid'' \<noteq> None) \<and>
         (buf r' = [] \<or> stringOk (hd (buf r')) ''errmsg'' = None)
       \<longrightarrow> snd (resourcednsforwardzoneCreate lib z s')
             = (z, [''Unable to create DNS forward zone: '' @ fz_name z @ newline])))
   \<and> (fst (resourceipmacCreate m s'') = [rq''] \<and> Request s'' rq'' = r'' \<and> err r'' = None \<longrightarrow>
      ((StatusCode r'' = 200 \<or> StatusCode r'' = 201) \<and> buf r'' = b'' # bs'' \<and>
         b'' ''ret_oid'' = Some (JString oid'')
       \<longrightarrow> snd (resourceipmacCreate m s'') = (m\<lparr>im_Id := oid''\<rparr>, []))
    \<and> ((StatusCode r'' \<noteq> 200 \<and> StatusCode r'' \<noteq> 201) \<or> buf r'' = []
       \<longrightarrow> snd (resourceipmacCreate m s'')
             = (m, [''Failed to create IP MAC association between '' @ im_address m
                      @ '' and '' @ im_mac m @ newline])))"
proof (intro conjI)
  show "fst (resourceapplicationpoolCreate d s) = [rq] \<and> Request s rq = r \<and> err r = None \<longrightarrow>
      ((StatusCode r = 200 \<or> StatusCode r = 201) \<and> buf r = b # bs \<and>
         b ''ret_oid'' = Some (JString oid)
       \<longrightarrow> snd (resourceapplicationpoolCreate d s) = (d\<lparr>ap_Id := oid\<rparr>, []))
    \<and> (\<not> ((StatusCode r = 200 \<or> StatusCode r = 201) \<and> buf r \<noteq> [] \<and>
            stringOk (hd (buf r)) ''ret_oid'' \<noteq> None) \<and>
         buf r = b # bs \<and> b ''errmsg'' = Some (JString msg)
       \<longrightarrow> snd (resourceapplicationpoolCreate d s)
             = (d, [''Unable to create application pool: '' @ ap_name d @ '' ('' @ msg @ '')'']))
    \<and> (\<not> ((StatusCode r = 200 \<or> StatusCode r = 201) \<and> buf r \<noteq> [] \<and>
            stringOk (hd (buf r)) ''ret_oid'' \<noteq> None) \<and>
         (buf r = [] \<or> stringOk (hd (buf r)) ''errmsg'' = None)
       \<longrightarrow> snd (resourceapplicationpoolCreate d s)
             = (d, [''Unable to create application pool: '' @ ap_name d @ newline]))"
  proof
    assume a: "fst (resourceapplicationpoolCreate d s) = [rq] \<and> Request s rq = r \<and> err r = None"
    then have "snd (resourceapplicationpoolCreate d s) = applicationpoolCreateAnswer d r"
      using applicationpoolCreate_sent [of d s rq] by simp
    then show "((StatusCode r = 200 \<or> StatusCode r = 201) \<and> buf r = b # bs \<and>
         b ''ret_oid'' = Some (JString oid)
       \<longrightarrow> snd (resourceapplicationpoolCreate d s) = (d\<lparr>ap_Id := oid\<rparr>, []))
    \<and> (\<not> ((StatusCode r = 200 \<or> StatusCode r = 201) \<and> buf r \<noteq> [] \<and>
            stringOk (hd (buf r)) ''ret_oid'' \<noteq> None) \<and>
         buf r = b # bs \<and> b ''errmsg'' = Some (JString msg)
       \<longrightarrow> snd (resourceapplicationpoolCreate d s)
             = (d, [''Unable to create application pool: '' @ ap_name d @ '' ('' @ msg @ '')'']))
    \<and> (\<not> ((StatusCode r = 200 \<or> StatusCode r = 201) \<and> buf r \<noteq> [] \<and>
            stringOk (hd (buf r)) ''ret_oid'' \<noteq> None) \<and>
         (buf r = [] \<or> stringOk (hd (buf r)) ''errmsg'' = None)
       \<longrightarrow> snd (resourceapplicationpoolCreate d s)
             = (d, [''Unable to create application pool: '' @ ap_name d @ newline]))"
      using a by (auto simp add: applicationpoolCreateAnswer_def reportFailure_def Errorf_def
            stringOk_def hd_conv_nth)
  qed
next
  show "fst (resourcednsforwardzoneCreate lib z s') = [rq'] \<and> Request s' rq' = r' \<and> err r' = None \<longrightarrow>
      ((StatusCode r' = 200 \<or> StatusCode r' = 201) \<and> buf r' = b' # bs' \<and>
         b' ''ret_oid'' = Some (JString oid')
       \<longrightarrow> snd (resourcednsforwardzoneCreate lib z s') = (z\<lparr>fz_Id := oid'\<rparr>, []))
    \<and> (\<not> ((StatusCode r' = 200 \<or> StatusCode r' = 201) \<and> buf r' \<noteq> [] \<and>
            stringOk (hd (buf r')) ''ret_oid'' \<noteq> None) \<and>
         buf r' = b' # bs' \<and> b' ''errmsg'' = Some (JString msg')
       \<longrightarrow> snd (resourcednsforwardzoneCreate lib z s')
             = (z, [''Unable to create DNS forward zone: '' @ fz_name z @ '' ('' @ msg' @ '')'']))
    \<and> (\<not> ((StatusCode r' = 200 \<or> StatusCode r' = 201) \<and> buf r' \<noteq> [] \<and>
            stringOk (hd (buf r')) ''ret_oid'' \<noteq> None) \<and>
         (buf r' = [] \<or> stringOk (hd (buf r')) ''errmsg'' = None)
       \<longrightarrow> snd (resourcednsforwardzoneCreate lib z s')
             = (z, [''Unable to create DNS forward zone: '' @ fz_name z @ newline]))"
  proof
    assume a: "fst (resourcednsforwardzoneCreate lib z s') = [rq'] \<and> Request s' rq' = r' \<and> err r' = None"
    then have "snd (resourcednsforwardzoneCreate lib z s') = forwardzoneCreateAnswer z r'"
      using forwardzoneCreate_sent [of lib z s' rq'] by simp
    then show "((StatusCode r' = 200 \<or> StatusCode r' = 201) \<and> buf r' = b' # bs' \<and>
         b' ''ret_oid'' = Some (JString oid')
       \<longrightarrow> snd (resourcednsforwardzoneCreate lib z s') = (z\<lparr>fz_Id := oid'\<rparr>, []))
    \<and> (\<not> ((StatusCode r' = 200 \<or> StatusCode r' = 201) \<and> buf r' \<noteq> [] \<and>
            stringOk (hd (buf r')) ''ret_oid'' \<noteq> None) \<and>
         buf r' = b' # bs' \<and> b' ''errmsg'' = Some (JString msg')
       \<longrightarrow> snd (resourcednsforwardzoneCreate lib z s')
             = (z, [''Unable to create DNS forward zone: '' @ fz_name z @ '' ('' @ msg' @ '')'']))
    \<and> (\<not> ((StatusCode r' = 200 \<or> StatusCode r' = 201) \<and> buf r' \<noteq> [] \<and>
            stringOk (hd (buf r')) ''ret_oid'' \<noteq> None) \<and>
         (buf r' = [] \<or> stringOk (hd (buf r')) ''errmsg'' = None)
       \<longrightarrow> snd (resourcednsforwardzoneCreate lib z s')
             = (z, [''Unable to create DNS forward zone: '' @ fz_name z @ newline]))"
      using a by (auto simp add: forwardzoneCreateAnswer_def reportFailure_def Errorf_def
            stringOk_def hd_conv_nth)
  qed
next
  show "fst (resourceipmacCreate m s'') = [rq''] \<and> Request s'' rq'' = r'' \<and> err r'' = None \<longrightarrow>
      ((StatusCode r'' = 200 \<or> StatusCode r'' = 201) \<and> buf r'' = b'' # bs'' \<and>
         b'' ''ret_oid'' = Some (JString oid'')
       \<longrightarrow> snd (resourceipmacCreate m s'') = (m\<lparr>im_Id := oid''\<rparr>, []))
    \<and> ((StatusCode r'' \<noteq> 200 \<and> StatusCode r'' \<noteq> 201) \<or> buf r'' = []
       \<longrightarrow> snd (resourceipmacCreate m s'')
             = (m, [''Failed to create IP MAC association between '' @ im_address m
                      @ '' and '' @ im_mac m @ newline]))"
  proof
    assume a: "fst (resourceipmacCreate m s'') = [rq''] \<and> Request s'' rq'' = r'' \<and> err r'' = None"
    then have "snd (resourceipmacCreate m s'') = ipmacCreateAnswer m r''"
      using ipmacCreate_sent [of m s'' rq''] by simp
    then show "((StatusCode r'' = 200 \<or> StatusCode r'' = 201) \<and> buf r'' = b'' # bs'' \<and>
         b'' ''ret_oid'' = Some (JString oid'')
       \<longrightarrow> snd (resourceipmacCreate m s'') = (m\<lparr>im_Id := oid''\<rparr>, []))
    \<and> ((StatusCode r'' \<noteq> 200 \<and> StatusCode r'' \<noteq> 201) \<or> buf r'' = []
       \<longrightarrow> snd (resourceipmacCreate m s'')
             = (m, [''Failed to create IP MAC association between '' @ im_address m
                      @ '' and '' @ im_mac m @ newline]))"
      using a by (auto simp add: ipmacCreateAnswer_def Errorf_def stringOk_def)
  qed
qed


theorem create_amended_witness:
  "snd (resourceapplicationpoolCreate examplePool
          (exampleServer 710 201 [[''ret_oid'' \<mapsto> JString ''12'']]))
     = (examplePool\<lparr>ap_Id := ''12''\<rparr>, [])
   \<and> snd (resourceapplicationpoolCreate examplePool
          (exampleServer 710 400 [[''errmsg'' \<mapsto> JString ''boom'']]))
     = (examplePool, [''Unable to create application pool: pool (boom)''])
   \<and> snd (resourceapplicationpoolCreate examplePool (exampleServer 710 200 []))
     = (examplePool, [''Unable to create application pool: pool'' @ newline])
   \<and> snd (resourcednsforwardzoneCreate exampleLibrary exampleZone
          (exampleServer 710 201 [[''ret_oid'' \<mapsto> JString ''12'']]))
     = (exampleZone\<lparr>fz_Id := ''12''\<rparr>, [])
   \<and> snd (resourcednsforwardzoneCreate exampleLibrary exampleZone
          (exampleServer 710 400 [[''errmsg'' \<mapsto> JString ''boom'']]))
     = (exampleZone, [''Unable to create DNS forward zone: example.org (boom)''])
   \<and> snd (resourcednsforwardzoneCreate exampleLibrary exampleZone (exampleServer 710 200 []))
     = (exampleZone, [''Unable to create DNS forward zone: example.org'' @ newline])
   \<and> snd (resourceipmacCreate exampleIpmac
          (exampleServer 710 201 [[''ret_oid'' \<mapsto> JString ''12'']]))
     = (exampleIpmac\<lparr>im_Id := ''12''\<rparr>, [])
   \<and> snd (resourceipmacCreate exampleIpmac (exampleServer 710 200 []))
     = (exampleIpmac, [''Failed to create IP MAC association between 10.0.0.1 and 00:11:22:33:44:55''
                         @ newline])"
proof -
  let ?ok = "exampleServer 710 201 [[''ret_oid'' \<mapsto> JString ''12'']]"
  let ?msg = "exampleServer 710 400 [[''errmsg'' \<mapsto> JString ''boom'']]"
  let ?nil = "exampleServer 710 200 []"
  let ?r = "\<lambda>code b. \<lparr>StatusCode = code, buf = b, err = None\<rparr>"
  note ok = create_amended [where d = examplePool and s = ?ok
      and rq = "hd (fst (resourceapplicationpoolCreate examplePool ?ok))"
      and r = "?r 201 [[''ret_oid'' \<mapsto> JString ''12'']]"
      and b = "[''ret_oid'' \<mapsto> JString ''12'']" and bs = "[]" and oid = "''12''"
      and lib = exampleLibrary and z = exampleZone and s' = ?ok
      and rq' = "hd (fst (resourcednsforwardzoneCreate exampleLibrary exampleZone ?ok))"
      and r' = "?r 201 [[''ret_oid'' \<mapsto> JString ''12'']]"
      and b' = "[''ret_oid'' \<mapsto> JString ''12'']" and bs' = "[]" and oid' = "''12''"
      and m = exampleIpmac and s'' = ?ok
      and rq'' = "hd (fst (resourceipmacCreate exampleIpmac ?ok))"
      and r'' = "?r 201 [[''ret_oid'' \<mapsto> JString ''12'']]"
      and b'' = "[''ret_oid'' \<mapsto> JString ''12'']" and bs'' = "[]" and oid'' = "''12''"]
  note msg = create_amended [where d = examplePool and s = ?msg
      and rq = "hd (fst (resourceapplicationpoolCreate examplePool ?msg))"
      and r = "?r 400 [[''errmsg'' \<mapsto> JString ''boom'']]"
      and b = "[''errmsg'' \<mapsto> JString ''boom'']" and bs = "[]" and msg = "''boom''"
      and lib = exampleLibrary and z = exampleZone and s' = ?msg
      and rq' = "hd (fst (resourcednsforwardzoneCreate exampleLibrary exampleZone ?msg))"
      and r' = "?r 400 [[''errmsg'' \<mapsto> JString ''boom'']]"
      and b' = "[''errmsg'' \<mapsto> JString ''boom'']" and bs' = "[]" and msg' = "''boom''"]
  note nil = create_amended [where d = examplePool and s = ?nil
      and rq = "hd (fst (resourceapplicationpoolCreate examplePool ?nil))"
      and r = "?r 200 []"
      and lib = exampleLibrary and z = exampleZone and s' = ?nil
      and rq' = "hd (fst (resourcednsforwardzoneCreate exampleLibrary exampleZone ?nil))"
      and r' = "?r 200 []"
      and m = exampleIpmac and s'' = ?nil
      and rq'' = "hd (fst (resourceipmacCreate exampleIpmac ?nil))"
      and r'' = "?r 200 []"]
  have 1: "snd (resourceapplicationpoolCreate examplePool ?ok) = (examplePool\<lparr>ap_Id := ''12''\<rparr>, [])"
    by (rule ok [THEN conjunct1, THEN mp, THEN conjunct1, THEN mp])
       (simp_all add: resourceapplicationpoolCreate_def Let_def)
  have 2: "snd (resourceapplicationpoolCreate examplePool ?msg)
      = (examplePool, [''Unable to create application pool: '' @ ap_name examplePool
                         @ '' ('' @ ''boom'' @ '')''])"
    by (rule msg [THEN conjunct1, THEN mp, THEN conjunct2, THEN conjunct1, THEN mp])
       (simp_all add: resourceapplicationpoolCreate_def Let_def)
  have 3: "snd (resourceapplicationpoolCreate examplePool ?nil)
      = (examplePool, [''Unable to create application pool: '' @ ap_name examplePool @ newline])"
    by (rule nil [THEN conjunct1, THEN mp, THEN conjunct2, THEN conjunct2, THEN mp])
       (simp_all add: resourceapplicationpoolCreate_def Let_def)
  have 4: "snd (resourcednsforwardzoneCreate exampleLibrary exampleZone ?ok)
      = (exampleZone\<lparr>fz_Id := ''12''\<rparr>, [])"
    by (rule ok [THEN conjunct2, THEN conjunct1, THEN mp, THEN conjunct1, THEN mp])
       (simp_all add: resourcednsforwardzoneCreate_def Let_def)
  have 5: "snd (resourcednsforwardzoneCreate exampleLibrary exampleZone ?msg)
      = (exampleZone, [''Unable to create DNS forward zone: '' @ fz_name exampleZone
                         @ '' ('' @ ''boom'' @ '')''])"
    by (rule msg [THEN conjunct2, THEN conjunct1, THEN mp, THEN conjunct2, THEN conjunct1, THEN mp])
       (simp_all add: resourcednsforwardzoneCreate_def Let_def)
  have 6: "snd (resourcednsforwardzoneCreate exampleLibrary exampleZone ?nil)
      = (exampleZone, [''Unable to create DNS forward zone: '' @ fz_name exampleZone @ newline])"
    by (rule nil [THEN conjunct2, THEN conjunct1, THEN mp, THEN conjunct2, THEN conjunct2, THEN mp])
       (simp_all add: resourcednsforwardzoneCreate_def Let_def)
  have 7: "snd (resourceipmacCreate exampleIpmac ?ok) = (exampleIpmac\<lparr>im_Id := ''12''\<rparr>, [])"
    by (rule ok [THEN conjunct2, THEN conjunct2, THEN mp, THEN conjunct1, THEN mp])
       (simp_all add: resourceipmacCreate_def Let_def)
  have 8: "snd (resourceipmacCreate exampleIpmac ?nil)
      = (exampleIpmac, [''Failed to create IP MAC association between '' @ im_address exampleIpmac
                          @ '' and '' @ im_mac exampleIpmac @ newline])"
    by (rule nil [THEN conjunct2, THEN conjunct2, THEN mp, THEN conjunct2, THEN mp])
       (simp_all add: resourceipmacCreate_def Let_def)
  from 1 2 3 4 5 6 7 8 show ?thesis
    by (simp add: examplePool_def exampleZone_def exampleIpmac_def)
qed

text \<open>The claim as stated fails on the IP MAC association: a reply with status 500
  whose first element holds the \<^verbatim>\<open>errmsg\<close> string \<^verbatim>\<open>boom\<close> yields the generic
  message, without \<^verbatim>\<open>boom\<close>.\<close>

theorem ipmacCreate_drops_errmsg:
  "snd (resourceipmacCreate exampleIpmac (exampleServer 710 500 [[''errmsg'' \<mapsto> JString ''boom'']]))
     = (exampleIpmac,
        [''Failed to create IP MAC association between 10.0.0.1 and 00:11:22:33:44:55'' @ newline])"
  by (simp add: resourceipmacCreate_def ipmacCreateAnswer_def exampleIpmac_def Let_def Errorf_def)

section \<open>The parameters of Update against those of Create\<close>

lemma Add_update_other: "k \<noteq> k' \<Longrightarrow> Add k v (m(k' := x)) = (Add k v m)(k' := x)"
  by (simp add: Add_def fun_upd_twist)

text \<open>The parameters Create and Update share are added alike whatever is stored under
  another key.\<close>

lemma applicationpoolFields_update:
  assumes "k \<notin> {''name'', ''appapplication_name'', ''appapplication_fqdn'', ''type'', ''lb_mode'',
                 ''affinity_state'', ''affinity_session_time'', ''best_active_nodes''}"
  shows "applicationpoolFields d (p(k := x)) = (applicationpoolFields d p)(k := x)"
proof -
  from assms have ne: "''name'' \<noteq> k" "''appapplication_name'' \<noteq> k" "''appapplication_fqdn'' \<noteq> k"
    "''type'' \<noteq> k" "''lb_mode'' \<noteq> k" "''affinity_state'' \<noteq> k" "''affinity_session_time'' \<noteq> k"
    "''best_active_nodes'' \<noteq> k"
    by auto
  show ?thesis
    unfolding applicationpoolFields_def Let_def
    by (simp only: Add_update_other [OF ne(1)] Add_update_other [OF ne(2)]
          Add_update_other [OF ne(3)] Add_update_other [OF ne(4)] Add_update_other [OF ne(5)]
          Add_update_other [OF ne(6)] Add_update_other [OF ne(7)] Add_update_other [OF ne(8)]
          if_distrib [of "\<lambda>m. m(k := x)", symmetric] split: if_splits)
qed


lemma applicationpoolCreateParameters_eq:
  "applicationpoolCreateParameters d
     = (applicationpoolFields d Map.empty)(''add_flag'' \<mapsto> [''new_only''])"
proof -
  have "applicationpoolCreateParameters d
      = applicationpoolFields d (Map.empty(''add_flag'' \<mapsto> [''new_only'']))"
    by (simp add: applicationpoolCreateParameters_def Add_fresh)
  then show ?thesis
    by (simp add: applicationpoolFields_update)
qed

lemma applicationpoolUpdateParameters_eq:
  "applicationpoolUpdateParameters d
     = (applicationpoolFields d Map.empty)
         (''apppool_id'' \<mapsto> [ap_Id d], ''add_flag'' \<mapsto> [''edit_only''])"
proof -
  have "applicationpoolUpdateParameters d
      = applicationpoolFields d
          (Map.empty(''apppool_id'' \<mapsto> [ap_Id d], ''add_flag'' \<mapsto> [''edit_only'']))"
    by (simp add: applicationpoolUpdateParameters_def Add_fresh)
  then show ?thesis
    by (simp add: applicationpoolFields_update)
qed

lemma forwardzoneSettings_update:
  assumes "k \<notin> {''dnszone_class_name'', ''dnszone_forward'', ''dnszone_forwarders'',
                 ''dnszone_class_parameters''}"
  shows "forwardzoneSettings lib d (p(k := x)) = (forwardzoneSettings lib d p)(k := x)"
proof -
  from assms have ne: "''dnszone_class_name'' \<noteq> k" "''dnszone_forward'' \<noteq> k"
    "''dnszone_forwarders'' \<noteq> k" "''dnszone_class_parameters'' \<noteq> k"
    by auto
  show ?thesis
    unfolding forwardzoneSettings_def Let_def
    by (simp only: Add_update_other [OF ne(1)] Add_update_other [OF ne(2)]
          Add_update_other [OF ne(3)] Add_update_other [OF ne(4)])
qed

lemma forwardzoneSettings_other:
  assumes "k \<notin> {''dnszone_class_name'', ''dnszone_forward'', ''dnszone_forwarders'',
                 ''dnszone_class_parameters''}"
  shows "forwardzoneSettings lib d p k = p k"
  using assms by (simp add: forwardzoneSettings_def Let_def Add_def)

lemma forwardzoneCreateParameters_eq:
  "forwardzoneCreateParameters lib d
     = (forwardzoneSettings lib d Map.empty)
         (''add_flag'' \<mapsto> [''new_only''], ''dns_name'' \<mapsto> [fz_dnsserver d],
          ''dnsview_name'' := (if fz_dnsview d \<noteq> ''#'' then Some [fz_dnsview d] else None),
          ''dnszone_name'' \<mapsto> [fz_name d], ''dnszone_type'' \<mapsto> [''forward''])"
proof (cases "fz_dnsview d = ''#''")
  case True
  then have "forwardzoneCreateParameters lib d
     = forwardzoneSettings lib d (Map.empty
         (''add_flag'' \<mapsto> [''new_only''], ''dns_name'' \<mapsto> [fz_dnsserver d],
          ''dnsview_name'' := None,
          ''dnszone_name'' \<mapsto> [fz_name d], ''dnszone_type'' \<mapsto> [''forward'']))"
    by (simp add: forwardzoneCreateParameters_def Let_def Add_fresh)
  with True show ?thesis
    by (simp add: forwardzoneSettings_update, intro ext, simp add: forwardzoneSettings_other)
next
  case False
  then have "forwardzoneCreateParameters lib d
     = forwardzoneSettings lib d (Map.empty
         (''add_flag'' \<mapsto> [''new_only''], ''dns_name'' \<mapsto> [fz_dnsserver d],
          ''dnsview_name'' \<mapsto> [fz_dnsview d],
          ''dnszone_name'' \<mapsto> [fz_name d], ''dnszone_type'' \<mapsto> [''forward'']))"
    by (simp add: forwardzoneCreateParameters_def Let_def Add_fresh)
  with False show ?thesis
    by (simp add: forwardzoneSettings_update)
qed

lemma forwardzoneUpdateParameters_eq:
  "forwardzoneUpdateParameters lib d
     = (forwardzoneSettings lib d Map.empty)
         (''dnszone_id'' \<mapsto> [fz_Id d], ''add_flag'' \<mapsto> [''edit_only''])"
proof -
  have "forwardzoneUpdateParameters lib d
     = forwardzoneSettings lib d
         (Map.empty(''dnszone_id'' \<mapsto> [fz_Id d], ''add_flag'' \<mapsto> [''edit_only'']))"
    by (simp add: forwardzoneUpdateParameters_def Let_def Add_fresh)
  then show ?thesis
    by (simp add: forwardzoneSettings_update)
qed


text \<open>C5, as amended. On a server of version 710 or later, Create of the application
  pool sends the verb post and Update the verb put, both to \<^verbatim>\<open>rest/app_pool_add\<close>,
  and the parameters of Update are those of Create with the stored id added under
  \<^verbatim>\<open>apppool_id\<close> and \<^verbatim>\<open>add_flag\<close> set to \<^verbatim>\<open>edit_only\<close> in place of
  \<^verbatim>\<open>new_only\<close>. For the DNS forward zone the verbs are post and put to
  \<^verbatim>\<open>rest/dns_zone_add\<close>, and the parameters of Update are those of Create without
  \<^verbatim>\<open>dns_name\<close>, \<^verbatim>\<open>dnsview_name\<close>, \<^verbatim>\<open>dnszone_name\<close> and
  \<^verbatim>\<open>dnszone_type\<close>, with the stored id added under \<^verbatim>\<open>dnszone_id\<close> and
  \<^verbatim>\<open>add_flag\<close> set to \<^verbatim>\<open>edit_only\<close>.\<close>

theorem update_parameters_amended:
  "(710 \<le> Version s \<longrightarrow>
      (\<exists>p. fst (resourceapplicationpoolCreate d s)
              = [\<lparr>verb = ''post'', path = ''rest/app_pool_add'', parameters = p\<rparr>]
          \<and> p ''add_flag'' = Some [''new_only'']
          \<and> fst (resourceapplicationpoolUpdate d s)
              = [\<lparr>verb = ''put'', path = ''rest/app_pool_add'',
                   parameters = p(''apppool_id'' \<mapsto> [ap_Id d], ''add_flag'' \<mapsto> [''edit_only''])\<rparr>]))
   \<and> (\<exists>p. fst (resourcednsforwardzoneCreate lib z s')
              = [\<lparr>verb = ''post'', path = ''rest/dns_zone_add'', parameters = p\<rparr>]
          \<and> p ''add_flag'' = Some [''new_only'']
          \<and> fst (resourcednsforwardzoneUpdate lib z s')
              = [\<lparr>verb = ''put'', path = ''rest/dns_zone_add'',
                   parameters = p(''dns_name'' := None, ''dnsview_name'' := None,
                                  ''dnszone_name'' := None, ''dnszone_type'' := None,
                                  ''dnszone_id'' \<mapsto> [fz_Id z],
                                  ''add_flag'' \<mapsto> [''edit_only''])\<rparr>])"
proof (intro conjI impI)
  assume "710 \<le> Version s"
  then have "fst (resourceapplicationpoolCreate d s)
              = [\<lparr>verb = ''post'', path = ''rest/app_pool_add'',
                   parameters = applicationpoolCreateParameters d\<rparr>]"
    and "fst (resourceapplicationpoolUpdate d s)
              = [\<lparr>verb = ''put'', path = ''rest/app_pool_add'',
                   parameters = applicationpoolUpdateParameters d\<rparr>]"
    by (simp_all add: resourceapplicationpoolCreate_def resourceapplicationpoolUpdate_def Let_def)
  moreover have "applicationpoolCreateParameters d ''add_flag'' = Some [''new_only'']"
    by (simp add: applicationpoolCreateParameters_eq)
  moreover have "applicationpoolUpdateParameters d
      = (applicationpoolCreateParameters d)
          (''apppool_id'' \<mapsto> [ap_Id d], ''add_flag'' \<mapsto> [''edit_only''])"
    by (simp add: applicationpoolCreateParameters_eq applicationpoolUpdateParameters_eq)
  ultimately show "\<exists>p. fst (resourceapplicationpoolCreate d s)
              = [\<lparr>verb = ''post'', path = ''rest/app_pool_add'', parameters = p\<rparr>]
          \<and> p ''add_flag'' = Some [''new_only'']
          \<and> fst (resourceapplicationpoolUpdate d s)
              = [\<lparr>verb = ''put'', path = ''rest/app_pool_add'',
                   parameters = p(''apppool_id'' \<mapsto> [ap_Id d], ''add_flag'' \<mapsto> [''edit_only''])\<rparr>]"
    by simp
next
  have "fst (resourcednsforwardzoneCreate lib z s')
              = [\<lparr>verb = ''post'', path = ''rest/dns_zone_add'',
                   parameters = forwardzoneCreateParameters lib z\<rparr>]"
    and "fst (resourcednsforwardzoneUpdate lib z s')
              = [\<lparr>verb = ''put'', path = ''rest/dns_zone_add'',
                   parameters = forwardzoneUpdateParameters lib z\<rparr>]"
    by (simp_all add: resourcednsforwardzoneCreate_def resourcednsforwardzoneUpdate_def Let_def)
  moreover have "forwardzoneCreateParameters lib z ''add_flag'' = Some [''new_only'']"
    by (simp add: forwardzoneCreateParameters_eq)
  moreover have "forwardzoneUpdateParameters lib z
      = (forwardzoneCreateParameters lib z)
          (''dns_name'' := None, ''dnsview_name'' := None, ''dnszone_name'' := None,
           ''dnszone_type'' := None, ''dnszone_id'' \<mapsto> [fz_Id z],
           ''add_flag'' \<mapsto> [''edit_only''])"
    unfolding forwardzoneCreateParameters_eq forwardzoneUpdateParameters_eq
    by (rule ext) (simp add: forwardzoneSettings_other)
  ultimately show "\<exists>p. fst (resourcednsforwardzoneCreate lib z s')
              = [\<lparr>verb = ''post'', path = ''rest/dns_zone_add'', parameters = p\<rparr>]
          \<and> p ''add_flag'' = Some [''new_only'']
          \<and> fst (resourcednsforwardzoneUpdate lib z s')
              = [\<lparr>verb = ''put'', path = ''rest/dns_zone_add'',
                   parameters = p(''dns_name'' := None, ''dnsview_name'' := None,
                                  ''dnszone_name'' := None, ''dnszone_type'' := None,
                                  ''dnszone_id'' \<mapsto> [fz_Id z],
                                  ''add_flag'' \<mapsto> [''edit_only''])\<rparr>]"
    by simp
qed


theorem update_parameters_amended_witness:
  "(\<exists>p. fst (resourceapplicationpoolCreate examplePool (exampleServer 710 200 []))
              = [\<lparr>verb = ''post'', path = ''rest/app_pool_add'', parameters = p\<rparr>]
          \<and> p ''add_flag'' = Some [''new_only'']
          \<and> fst (resourceapplicationpoolUpdate examplePool (exampleServer 710 200 []))
              = [\<lparr>verb = ''put'', path = ''rest/app_pool_add'',
                   parameters = p(''apppool_id'' \<mapsto> [''7''], ''add_flag'' \<mapsto> [''edit_only''])\<rparr>])
   \<and> (\<exists>p. fst (resourcednsforwardzoneCreate exampleLibrary exampleZone (exampleServer 710 200 []))
              = [\<lparr>verb = ''post'', path = ''rest/dns_zone_add'', parameters = p\<rparr>]
          \<and> p ''add_flag'' = Some [''new_only'']
          \<and> fst (resourcednsforwardzoneUpdate exampleLibrary exampleZone (exampleServer 710 200 []))
              = [\<lparr>verb = ''put'', path = ''rest/dns_zone_add'',
                   parameters = p(''dns_name'' := None, ''dnsview_name'' := None,
                                  ''dnszone_name'' := None, ''dnszone_type'' := None,
                                  ''dnszone_id'' \<mapsto> [''9''],
                                  ''add_flag'' \<mapsto> [''edit_only''])\<rparr>])"
proof -
  have v: "710 \<le> Version (exampleServer 710 200 [])"
    by simp
  have i: "ap_Id examplePool = ''7''" "fz_Id exampleZone = ''9''"
    by (simp_all add: examplePool_def exampleZone_def)
  from update_parameters_amended [of "exampleServer 710 200 []" examplePool exampleLibrary
      exampleZone "exampleServer 710 200 []"] v
  show ?thesis
    unfolding i by blast
qed

text \<open>The claim as stated fails on the DNS forward zone: Create sends the server name
  under \<^verbatim>\<open>dns_name\<close>, Update sends nothing under that key.\<close>

theorem forwardzoneUpdate_omits_dns_name:
  "parameters (hd (fst (resourcednsforwardzoneCreate exampleLibrary exampleZone
                         (exampleServer 710 200 [])))) ''dns_name'' = Some [''ns1'']
   \<and> parameters (hd (fst (resourcednsforwardzoneUpdate exampleLibrary exampleZone
                         (exampleServer 710 200 [])))) ''dns_name'' = None"
  by (simp add: resourcednsforwardzoneCreate_def resourcednsforwardzoneUpdate_def Let_def
        forwardzoneCreateParameters_eq forwardzoneUpdateParameters_eq
        forwardzoneSettings_other exampleZone_def)

section \<open>Import\<close>

lemma applicationpoolImportAnswer_shape:
  assumes "applicationpoolImportAnswer d r = Inr (ds, e)"
  shows "(e = None \<and> (\<exists>d'. ds = [d'])) \<or> (e \<noteq> None \<and> ds = [])"
proof (cases "err r")
  case None
  show ?thesis
  proof (cases "StatusCode r = 200 \<and> length (buf r) > 0")
    case True
    with None assms show ?thesis
      by (auto simp add: applicationpoolImportAnswer_def bind_def split: sum.splits)
  next
    case False
    with None assms show ?thesis
      by (auto simp add: applicationpoolImportAnswer_def)
  qed
next
  case (Some x)
  with assms have "e = Some x" and "ds = []"
    by (simp_all add: applicationpoolImportAnswer_def)
  then show ?thesis
    by simp
qed

lemma forwardzoneImportAnswer_shape:
  assumes "forwardzoneImportAnswer lib d r = Inr (ds, e)"
  shows "(e = None \<and> (\<exists>d'. ds = [d'])) \<or> (e \<noteq> None \<and> ds = [])"
proof (cases "err r")
  case None
  show ?thesis
  proof (cases "StatusCode r = 200 \<and> length (buf r) > 0")
    case True
    with None assms show ?thesis
      by (auto simp add: forwardzoneImportAnswer_def bind_def split: sum.splits)
  next
    case False
    with None assms show ?thesis
      by (auto simp add: forwardzoneImportAnswer_def)
  qed
next
  case (Some x)
  with assms have "e = Some x" and "ds = []"
    by (simp_all add: forwardzoneImportAnswer_def)
  then show ?thesis
    by simp
qed

text \<open>C6. Import of the application pool and of the DNS forward zone has no failure path
  that returns nil. Whenever Import returns, it returns either the imported resource data
  with a nil error, or no resource data with an error that is not nil. And on every
  failure path (the version check of the application pool, a transport error, a status
  other than 200, an empty array) Import does return, with no resource data and an
  error that is not nil.\<close>

theorem import_failure_is_error:
  "(snd (resourceapplicationpoolImportState d s) = Inr (ds, e)
      \<longrightarrow> (e = None \<and> (\<exists>d'. ds = [d'])) \<or> (e \<noteq> None \<and> ds = []))
   \<and> (Version s < 710 \<or>
       (fst (resourceapplicationpoolImportState d s) = [rq] \<and>
        (err (Request s rq) \<noteq> None \<or> StatusCode (Request s rq) \<noteq> 200 \<or>
         buf (Request s rq) = []))
      \<longrightarrow> (\<exists>msg. snd (resourceapplicationpoolImportState d s) = Inr ([], Some msg)))
   \<and> (snd (resourcednsforwardzoneImportState lib z s') = Inr (zs, e')
      \<longrightarrow> (e' = None \<and> (\<exists>z'. zs = [z'])) \<or> (e' \<noteq> None \<and> zs = []))
   \<and> (fst (resourcednsforwardzoneImportState lib z s') = [rq'] \<and>
        (err (Request s' rq') \<noteq> None \<or> StatusCode (Request s' rq') \<noteq> 200 \<or>
         buf (Request s' rq') = [])
      \<longrightarrow> (\<exists>msg. snd (resourcednsforwardzoneImportState lib z s') = Inr ([], Some msg)))"
proof (intro conjI impI)
  assume a: "snd (resourceapplicationpoolImportState d s) = Inr (ds, e)"
  show "(e = None \<and> (\<exists>d'. ds = [d'])) \<or> (e \<noteq> None \<and> ds = [])"
  proof (cases "Version s < 710")
    case True
    with a show ?thesis
      by (auto simp add: resourceapplicationpoolImportState_def Let_def)
  next
    case False
    with a have "applicationpoolImportAnswer d (Request s
        \<lparr>verb = ''get'', path = ''rest/app_pool_info'',
          parameters = Add ''apppool_id'' (ap_Id d) Map.empty\<rparr>) = Inr (ds, e)"
      by (simp add: resourceapplicationpoolImportState_def Let_def)
    then show ?thesis
      by (rule applicationpoolImportAnswer_shape)
  qed
next
  assume a: "Version s < 710 \<or>
       (fst (resourceapplicationpoolImportState d s) = [rq] \<and>
        (err (Request s rq) \<noteq> None \<or> StatusCode (Request s rq) \<noteq> 200 \<or>
         buf (Request s rq) = []))"
  show "\<exists>msg. snd (resourceapplicationpoolImportState d s) = Inr ([], Some msg)"
  proof (cases "Version s < 710")
    case True
    then show ?thesis
      by (simp add: resourceapplicationpoolImportState_def Let_def)
  next
    case False
    with a have sent: "fst (resourceapplicationpoolImportState d s) = [rq]"
      and bad: "err (Request s rq) \<noteq> None \<or> StatusCode (Request s rq) \<noteq> 200 \<or>
         buf (Request s rq) = []"
      by simp_all
    from sent have "snd (resourceapplicationpoolImportState d s)
        = applicationpoolImportAnswer d (Request s rq)"
      by (rule applicationpoolImport_sent)
    with bad show ?thesis
      by (cases "err (Request s rq)") (auto simp add: applicationpoolImportAnswer_def)
  qed
next
  assume "snd (resourcednsforwardzoneImportState lib z s') = Inr (zs, e')"
  then have "forwardzoneImportAnswer lib z (Request s'
        \<lparr>verb = ''get'', path = ''rest/dns_zone_info'',
          parameters = Add ''dnszone_id'' (fz_Id z) Map.empty\<rparr>) = Inr (zs, e')"
    by (simp add: resourcednsforwardzoneImportState_def Let_def)
  then show "(e' = None \<and> (\<exists>z'. zs = [z'])) \<or> (e' \<noteq> None \<and> zs = [])"
    by (rule forwardzoneImportAnswer_shape)
next
  assume a: "fst (resourcednsforwardzoneImportState lib z s') = [rq'] \<and>
        (err (Request s' rq') \<noteq> None \<or> StatusCode (Request s' rq') \<noteq> 200 \<or>
         buf (Request s' rq') = [])"
  then have "snd (resourcednsforwardzoneImportState lib z s')
      = forwardzoneImportAnswer lib z (Request s' rq')"
    by (simp add: forwardzoneImport_sent)
  with a show "\<exists>msg. snd (resourcednsforwardzoneImportState lib z s') = Inr ([], Some msg)"
    by (cases "err (Request s' rq')") (auto simp add: forwardzoneImportAnswer_def)
qed

theorem import_failure_is_error_witness:
  "snd (resourceapplicationpoolImportState examplePool (exampleServer 710 404 []))
     = Inr ([], Some (''SOLIDServer - Unable to find and import application pool (oid): 7'' @ newline))
   \<and> snd (resourcednsforwardzoneImportState exampleLibrary exampleZone (exampleServer 710 404 []))
     = Inr ([], Some (''SOLIDServer - Unable to find and import DNS forward zone (oid): 9'' @ newline))
   \<and> (\<exists>msg. snd (resourceapplicationpoolImportState examplePool (exampleServer 700 200 []))
              = Inr ([], Some msg))
   \<and> (\<exists>msg. snd (resourceapplicationpoolImportState examplePool (exampleServer 710 404 []))
              = Inr ([], Some msg))
   \<and> (\<exists>msg. snd (resourcednsforwardzoneImportState exampleLibrary exampleZone
                    (exampleServer 710 404 [])) = Inr ([], Some msg))
   \<and> ((Some (''SOLIDServer - Unable to find and import application pool (oid): 7'' @ newline) = None
        \<and> (\<exists>d'. [] = [d' :: applicationpool]))
       \<or> (Some (''SOLIDServer - Unable to find and import application pool (oid): 7'' @ newline) \<noteq> None
        \<and> ([] :: applicationpool list) = []))
   \<and> ((Some (''SOLIDServer - Unable to find and import DNS forward zone (oid): 9'' @ newline) = None
        \<and> (\<exists>z'. [] = [z' :: forwardzone]))
       \<or> (Some (''SOLIDServer - Unable to find and import DNS forward zone (oid): 9'' @ newline) \<noteq> None
        \<and> ([] :: forwardzone list) = []))"
proof -
  let ?s = "exampleServer 710 404 []"
  let ?old = "exampleServer 700 200 []"
  have 1: "snd (resourceapplicationpoolImportState examplePool ?s)
     = Inr ([], Some (''SOLIDServer - Unable to find and import application pool (oid): 7'' @ newline))"
    by (simp add: resourceapplicationpoolImportState_def applicationpoolImportAnswer_def Let_def
          examplePool_def)
  have 2: "snd (resourcednsforwardzoneImportState exampleLibrary exampleZone ?s)
     = Inr ([], Some (''SOLIDServer - Unable to find and import DNS forward zone (oid): 9'' @ newline))"
    by (simp add: resourcednsforwardzoneImportState_def forwardzoneImportAnswer_def Let_def
          exampleZone_def)
  note inst = import_failure_is_error [where d = examplePool and s = ?s and ds = "[]"
      and e = "Some (''SOLIDServer - Unable to find and import application pool (oid): 7'' @ newline)"
      and rq = "hd (fst (resourceapplicationpoolImportState examplePool ?s))"
      and lib = exampleLibrary and z = exampleZone and s' = ?s and zs = "[]"
      and e' = "Some (''SOLIDServer - Unable to find and import DNS forward zone (oid): 9'' @ newline)"
      and rq' = "hd (fst (resourcednsforwardzoneImportState exampleLibrary exampleZone ?s))"]
  note old = import_failure_is_error [where d = examplePool and s = ?old]
  have 3: "\<exists>msg. snd (resourceapplicationpoolImportState examplePool ?old) = Inr ([], Some msg)"
    by (rule old [THEN conjunct2, THEN conjunct1, THEN mp]) simp
  have 4: "\<exists>msg. snd (resourceapplicationpoolImportState examplePool ?s) = Inr ([], Some msg)"
    by (rule inst [THEN conjunct2, THEN conjunct1, THEN mp])
       (simp add: resourceapplicationpoolImportState_def Let_def)
  have 5: "\<exists>msg. snd (resourcednsforwardzoneImportState exampleLibrary exampleZone ?s)
              = Inr ([], Some msg)"
    by (rule inst [THEN conjunct2, THEN conjunct2, THEN conjunct2, THEN mp])
       (simp add: resourcednsforwardzoneImportState_def Let_def)
  from inst [THEN conjunct1, THEN mp, OF 1]
    inst [THEN conjunct2, THEN conjunct2, THEN conjunct1, THEN mp, OF 2] 1 2 3 4 5
  show ?thesis
    by blast
qed

section \<open>Forwarders: from the list to the parameter and back\<close>

lemma foldl_append_each:
  "foldl (\<lambda>acc x. acc @ x @ t) a xs = a @ concat (map (\<lambda>x. x @ t) xs)"
  by (induction xs arbitrary: a) simp_all

lemma forwardersList_concat:
  "forwardersList fwds = concat (map (\<lambda>fwd. fwd @ '';'') fwds)"
  by (simp add: forwardersList_def toStringArray_def foldl_append_each)

lemma Split_not_Nil: "Split s sep \<noteq> []"
  by (induction s) (auto split: list.splits)

lemma Split_without_separator: "sep \<notin> set s \<Longrightarrow> Split s sep = [s]"
  by (induction s) auto

lemma Split_first_piece:
  "sep \<notin> set f \<Longrightarrow> Split (f @ sep # rest) sep = f # Split rest sep"
  by (induction f) (auto split: list.splits simp add: Split_not_Nil)

lemma Split_pieces:
  assumes "\<forall>f \<in> set fs. sep \<notin> set f" and "sep \<notin> set l"
  shows "Split (concat (map (\<lambda>f. f @ [sep]) fs) @ l) sep = fs @ [l]"
  using assms
  by (induction fs) (simp_all add: Split_without_separator Split_first_piece)

lemma TrimSuffix_appended: "TrimSuffix (s @ t) t = s"
  by (simp add: TrimSuffix_def)

text \<open>C7. For a list of forwarders that is not empty, whose elements are not empty and
  hold no semicolon, what Read makes of the string Create sends is the list again.\<close>

theorem forwarders_roundtrip:
  assumes "fwds \<noteq> []" and "\<forall>fwd \<in> set fwds. fwd \<noteq> [] \<and> CHR '';'' \<notin> set fwd"
  shows "forwardersOf (forwardersList fwds) = fwds"
proof -
  from \<open>fwds \<noteq> []\<close> obtain fs l where fwds: "fwds = fs @ [l]"
    by (metis rev_exhaust)
  with assms(2) have clean: "\<forall>f \<in> set fs. CHR '';'' \<notin> set f" "CHR '';'' \<notin> set l"
    by simp_all
  have "forwardersList fwds = (concat (map (\<lambda>f. f @ '';'') fs) @ l) @ '';''"
    by (simp add: forwardersList_concat fwds)
  then have "TrimSuffix (forwardersList fwds) '';'' = concat (map (\<lambda>f. f @ '';'') fs) @ l"
    by (simp only: TrimSuffix_appended)
  then have "Split (TrimSuffix (forwardersList fwds) '';'') CHR '';'' = fs @ [l]"
    using clean by (simp add: Split_pieces)
  then show ?thesis
    by (simp add: forwardersOf_def toStringArrayInterface_def fwds)
qed

theorem forwarders_roundtrip_witness:
  "[''10.0.0.53'', ''10.0.0.54''] \<noteq> []
   \<and> forwardersList [''10.0.0.53'', ''10.0.0.54''] = ''10.0.0.53;10.0.0.54;''
   \<and> forwardersOf ''10.0.0.53;10.0.0.54;'' = [''10.0.0.53'', ''10.0.0.54'']"
proof -
  have ne: "[''10.0.0.53'', ''10.0.0.54''] \<noteq> []"
    by simp
  have ok: "\<forall>fwd \<in> set [''10.0.0.53'', ''10.0.0.54'']. fwd \<noteq> [] \<and> CHR '';'' \<notin> set fwd"
    by simp
  have l: "forwardersList [''10.0.0.53'', ''10.0.0.54''] = ''10.0.0.53;10.0.0.54;''"
    by (simp add: forwardersList_def toStringArray_def)
  from forwarders_roundtrip [OF ne ok] ne l show ?thesis
    by simp
qed

text \<open>The two functions are what the handlers use: Create sends \<open>forwardersList\<close> of the
  stored list under \<^verbatim>\<open>dnszone_forwarders\<close>, and Read stores \<open>forwardersOf\<close> of a
  retrieved string that is not empty.\<close>

lemma forwardzoneCreate_sends_forwardersList:
  "parameters (hd (fst (resourcednsforwardzoneCreate lib d s))) ''dnszone_forwarders''
     = Some [forwardersList (fz_forwarders d)]"
  by (simp add: resourcednsforwardzoneCreate_def Let_def forwardzoneCreateParameters_eq
        forwardzoneSettings_def Add_def)

lemma forwardzoneReadFields_forwarders:
  assumes "forwardzoneReadFields lib d b = Inr d'" and "b ''dnszone_forwarders'' = Some (JString v)"
    and "v \<noteq> []"
  shows "fz_forwarders d' = forwardersOf v"
  using assms
  by (auto simp add: forwardzoneReadFields_def bind_eq_Inr stringOf_Inr_iff stringOk_Some_iff
        Let_def)

section \<open>The fields Read and Import store\<close>

subsection \<open>Class parameters\<close>

lemma dropDnsptr_apply:
  "dropDnsptr retrieved ck = (if ck = ''dnsptr'' then None else retrieved ck)"
  by (simp add: dropDnsptr_def)

text \<open>When no retrieved key holds an empty list of values, the loop does not panic and
  computes one entry for each current entry.\<close>

lemma computeClassParameters_total:
  assumes "\<forall>k. retrieved k \<noteq> Some []"
  shows "computeClassParameters current retrieved
           = Inr (map (\<lambda>(ck, cv). (ck, case retrieved ck of Some rv \<Rightarrow> hd rv | None \<Rightarrow> []))
                    current)"
proof (induction current)
  case Nil
  show ?case by simp
next
  case (Cons entry current)
  obtain ck cv where entry: "entry = (ck, cv)"
    by (cases entry)
  show ?case
  proof (cases "retrieved ck")
    case None
    with Cons entry show ?thesis by simp
  next
    case (Some rv)
    with assms have "rv \<noteq> []"
      by auto
    then obtain v vs where "rv = v # vs"
      by (cases rv) auto
    with Cons entry Some show ?thesis by simp
  qed
qed

lemma map_of_computed:
  "map_of (map (\<lambda>(ck, cv). (ck, f ck)) current) k
     = (if k \<in> fst ` set current then Some (f k) else None)"
  by (induction current) auto



subsection \<open>DNS forward zone\<close>

lemma forwardzoneReadFields_strings:
  assumes "stringOk b ''dns_name'' = Some v1" and "stringOk b ''dnsview_name'' = Some v2"
    and "stringOk b ''dnszone_name'' = Some v3" and "stringOk b ''dnszone_forward'' = Some fwd"
    and "stringOk b ''dnszone_forwarders'' = Some fwds"
    and "stringOk b ''dnszone_class_name'' = Some cls"
    and "stringOk b ''dnszone_class_parameters'' = Some cps"
    and "\<forall>k. ParseQuery lib cps k \<noteq> Some []"
  shows "forwardzoneReadFields lib d b
    = Inr (d\<lparr>fz_dnsserver := v1, fz_dnsview := v2, fz_name := v3,
             fz_forward := (if fwd = [] then ''none'' else ToLower fwd),
             fz_forwarders := (if fwds \<noteq> [] then forwardersOf fwds else fz_forwarders d),
             fz_class := cls,
             fz_class_parameters :=
               map (\<lambda>(ck, cv). (ck, case dropDnsptr (ParseQuery lib cps) ck of
                                        Some rv \<Rightarrow> hd rv | None \<Rightarrow> []))
                 (fz_class_parameters d)\<rparr>)"
proof -
  from assms(8) have "\<forall>k. dropDnsptr (ParseQuery lib cps) k \<noteq> Some []"
    by (simp add: dropDnsptr_apply)
  then have "computeClassParameters (fz_class_parameters d) (dropDnsptr (ParseQuery lib cps))
    = Inr (map (\<lambda>(ck, cv). (ck, case dropDnsptr (ParseQuery lib cps) ck of
                                        Some rv \<Rightarrow> hd rv | None \<Rightarrow> []))
                 (fz_class_parameters d))"
    by (rule computeClassParameters_total)
  then show ?thesis
    by (simp add: forwardzoneReadFields_def Let_def stringOf_string assms(1-7))
qed

lemma forwardzoneImportFields_strings:
  assumes "stringOk b ''dns_name'' = Some v1" and "stringOk b ''dnsview_name'' = Some v2"
    and "stringOk b ''dnszone_name'' = Some v3" and "stringOk b ''dnszone_forward'' = Some fwd"
    and "stringOk b ''dnszone_forwarders'' = Some fwds"
    and "stringOk b ''dnszone_class_name'' = Some cls"
    and "stringOk b ''dnszone_class_parameters'' = Some cps"
    and "\<forall>k. ParseQuery lib cps k \<noteq> Some []"
    and "stringOk b ''dnszone_type'' = Some v4"
  shows "forwardzoneImportFields lib d b
    = Inr (d\<lparr>fz_dnsserver := v1, fz_dnsview := v2, fz_name := v3,
             fz_forward := (if fwd = [] then ''none'' else ToLower fwd),
             fz_forwarders := (if fwds \<noteq> [] then forwardersOf fwds else fz_forwarders d),
             fz_class := cls,
             fz_class_parameters :=
               map (\<lambda>(ck, cv). (ck, case dropDnsptr (ParseQuery lib cps) ck of
                                        Some rv \<Rightarrow> hd rv | None \<Rightarrow> []))
                 (fz_class_parameters d)\<rparr>)"
proof -
  from assms(8) have "\<forall>k. dropDnsptr (ParseQuery lib cps) k \<noteq> Some []"
    by (simp add: dropDnsptr_apply)
  then have "computeClassParameters (fz_class_parameters d) (dropDnsptr (ParseQuery lib cps))
    = Inr (map (\<lambda>(ck, cv). (ck, case dropDnsptr (ParseQuery lib cps) ck of
                                        Some rv \<Rightarrow> hd rv | None \<Rightarrow> []))
                 (fz_class_parameters d))"
    by (rule computeClassParameters_total)
  then show ?thesis
    by (simp add: forwardzoneImportFields_def Let_def stringOf_string assms(1-7) assms(9))
qed

lemma forwardzoneReadFields_Inr_strings:
  assumes "forwardzoneReadFields lib d b = Inr d'"
  shows "\<forall>k \<in> set [''dns_name'', ''dnsview_name'', ''dnszone_name'', ''dnszone_forward'',
                     ''dnszone_forwarders'', ''dnszone_class_name'', ''dnszone_class_parameters''].
           stringOk b k \<noteq> None"
  using assms
  by (auto simp add: forwardzoneReadFields_def bind_eq_Inr stringOf_Inr_iff)

lemma forwardzoneImportFields_Inr_strings:
  assumes "forwardzoneImportFields lib d b = Inr d'"
  shows "\<forall>k \<in> set [''dns_name'', ''dnsview_name'', ''dnszone_name'', ''dnszone_type'',
                     ''dnszone_forward'', ''dnszone_forwarders'', ''dnszone_class_name'',
                     ''dnszone_class_parameters'']. stringOk b k \<noteq> None"
  using assms
  by (auto simp add: forwardzoneImportFields_def bind_eq_Inr stringOf_Inr_iff)


subsection \<open>Application pool\<close>

lemma applicationpoolReadFields_Inr_strings:
  assumes "applicationpoolReadFields d b = Inr d'"
  shows "(\<forall>k \<in> set [''apppool_name'', ''appapplication_name'', ''appapplication_fqdn'',
                      ''apppool_lb_mode'', ''apppool_affinity_state'',
                      ''apppool_best_active_nodes'']. stringOk b k \<noteq> None)
         \<and> (stringOk b ''apppool_affinity_state'' \<noteq> Some ''0''
              \<longrightarrow> stringOk b ''apppool_affinity_session_time'' \<noteq> None)"
  using assms
  by (auto simp add: applicationpoolReadFields_def bind_eq_Inr stringOf_Inr_iff Let_def
        split: if_splits)

lemma applicationpoolImportFields_Inr_strings:
  assumes "applicationpoolImportFields d b = Inr d'"
  shows "(\<forall>k \<in> set [''apppool_name'', ''appapplication_name'', ''appapplication_fqdn'',
                      ''apppool_lb_mode'', ''apppool_affinity_state'',
                      ''apppool_best_active_nodes'']. stringOk b k \<noteq> None)
         \<and> (stringOk b ''apppool_affinity_state'' \<noteq> Some ''0''
              \<longrightarrow> stringOk b ''apppool_affinity_session_time'' \<noteq> None)"
  using assms
  by (auto simp add: applicationpoolImportFields_def bind_eq_Inr stringOf_Inr_iff Let_def
        split: if_splits)

lemma applicationpoolReadFields_strings:
  assumes "stringOk b ''apppool_name'' = Some v1" and "stringOk b ''appapplication_name'' = Some v2"
    and "stringOk b ''appapplication_fqdn'' = Some v3" and "stringOk b ''apppool_lb_mode'' = Some v4"
    and "stringOk b ''apppool_affinity_state'' = Some st"
    and "stringOk b ''apppool_best_active_nodes'' = Some n"
    and "st \<noteq> ''0'' \<longrightarrow> stringOk b ''apppool_affinity_session_time'' = Some t"
  shows "applicationpoolReadFields d b
    = Inr (d\<lparr>ap_name := v1, ap_application := v2, ap_fqdn := v3, ap_lb_mode := v4,
             ap_affinity := (st \<noteq> ''0''),
             ap_affinity_session_duration :=
               (if st = ''0'' then ap_affinity_session_duration d else Atoi t),
             ap_best_active_nodes := (if n \<noteq> [] then Atoi n else ap_best_active_nodes d)\<rparr>)"
  using assms(7)
  by (cases "st = ''0''")
     (simp_all add: applicationpoolReadFields_def Let_def stringOf_string assms(1-6))

lemma applicationpoolImportFields_strings:
  assumes "stringOk b ''apppool_name'' = Some v1" and "stringOk b ''appapplication_name'' = Some v2"
    and "stringOk b ''appapplication_fqdn'' = Some v3" and "stringOk b ''apppool_lb_mode'' = Some v4"
    and "stringOk b ''apppool_affinity_state'' = Some st"
    and "stringOk b ''apppool_best_active_nodes'' = Some n"
    and "st \<noteq> ''0'' \<longrightarrow> stringOk b ''apppool_affinity_session_time'' = Some t"
  shows "applicationpoolImportFields d b
    = Inr (d\<lparr>ap_name := v1, ap_application := v2, ap_fqdn := v3, ap_lb_mode := v4,
             ap_affinity_session_duration :=
               (if st = ''0'' then ap_affinity_session_duration d else Atoi t),
             ap_best_active_nodes := (if n \<noteq> [] then Atoi n else 0)\<rparr>)"
  using assms(7)
  by (cases "st = ''0''")
     (simp_all add: applicationpoolImportFields_def Let_def stringOf_string assms(1-6))

section \<open>Class parameters recomputed by Read and Import\<close>

text \<open>C8. Let Read (or Import) of the DNS forward zone have sent its request and the
  reply carry no transport error, status 200 and a first element \<open>b\<close> in which every
  key the handler reads is a string, \<^verbatim>\<open>dnszone_class_parameters\<close> being \<open>cps\<close>;
  let no key of the parsed \<open>cps\<close> hold an empty list of values (as
  \<^verbatim>\<open>url.ParseQuery\<close> guarantees). Then the handler returns without error, and the
  class parameters it stores have exactly the keys of the current local ones; the key
  \<^verbatim>\<open>dnsptr\<close> maps to the empty string, as it was deleted from the retrieved values,
  and every other key to the first retrieved value when the key was retrieved and to the
  empty string otherwise.\<close>

theorem read_class_parameters:
  "(fst (resourcednsforwardzoneRead lib d s) = [rq] \<and> Request s rq = r \<and> err r = None \<and>
      StatusCode r = 200 \<and> buf r = b # bs \<and>
      (\<forall>k \<in> set [''dns_name'', ''dnsview_name'', ''dnszone_name'', ''dnszone_forward'',
                    ''dnszone_forwarders'', ''dnszone_class_name'']. stringOk b k \<noteq> None) \<and>
      b ''dnszone_class_parameters'' = Some (JString cps) \<and>
      (\<forall>k. ParseQuery lib cps k \<noteq> Some [])
    \<longrightarrow> (\<exists>d'. snd (resourcednsforwardzoneRead lib d s) = Inr (d', []) \<and>
          (\<forall>ck. map_of (fz_class_parameters d') ck =
             (if ck \<in> fst ` set (fz_class_parameters d)
              then Some (if ck = ''dnsptr'' then []
                         else (case ParseQuery lib cps ck of Some rv \<Rightarrow> hd rv | None \<Rightarrow> []))
              else None))))
   \<and> (fst (resourcednsforwardzoneImportState lib d s) = [rq] \<and> Request s rq = r \<and> err r = None \<and>
      StatusCode r = 200 \<and> buf r = b # bs \<and>
      (\<forall>k \<in> set [''dns_name'', ''dnsview_name'', ''dnszone_name'', ''dnszone_type'',
                    ''dnszone_forward'', ''dnszone_forwarders'', ''dnszone_class_name''].
          stringOk b k \<noteq> None) \<and>
      b ''dnszone_class_parameters'' = Some (JString cps) \<and>
      (\<forall>k. ParseQuery lib cps k \<noteq> Some [])
    \<longrightarrow> (\<exists>d'. snd (resourcednsforwardzoneImportState lib d s) = Inr ([d'], None) \<and>
          (\<forall>ck. map_of (fz_class_parameters d') ck =
             (if ck \<in> fst ` set (fz_class_parameters d)
              then Some (if ck = ''dnsptr'' then []
                         else (case ParseQuery lib cps ck of Some rv \<Rightarrow> hd rv | None \<Rightarrow> []))
              else None))))"
proof (intro conjI impI)
  assume a: "fst (resourcednsforwardzoneRead lib d s) = [rq] \<and> Request s rq = r \<and> err r = None \<and>
      StatusCode r = 200 \<and> buf r = b # bs \<and>
      (\<forall>k \<in> set [''dns_name'', ''dnsview_name'', ''dnszone_name'', ''dnszone_forward'',
                    ''dnszone_forwarders'', ''dnszone_class_name'']. stringOk b k \<noteq> None) \<and>
      b ''dnszone_class_parameters'' = Some (JString cps) \<and>
      (\<forall>k. ParseQuery lib cps k \<noteq> Some [])"
  then obtain v1 v2 v3 fwd fwds cls where keys:
    "stringOk b ''dns_name'' = Some v1" "stringOk b ''dnsview_name'' = Some v2"
    "stringOk b ''dnszone_name'' = Some v3" "stringOk b ''dnszone_forward'' = Some fwd"
    "stringOk b ''dnszone_forwarders'' = Some fwds" "stringOk b ''dnszone_class_name'' = Some cls"
    by auto
  from a have cps: "stringOk b ''dnszone_class_parameters'' = Some cps"
    and parsed: "\<forall>k. ParseQuery lib cps k \<noteq> Some []"
    by (simp_all add: stringOk_Some_iff)
  from a have "snd (resourcednsforwardzoneRead lib d s) = forwardzoneReadAnswer lib d r"
    using forwardzoneRead_sent [of lib d s rq] by simp
  with a have "snd (resourcednsforwardzoneRead lib d s)
      = bind (forwardzoneReadFields lib d b) (\<lambda>d'. Inr (d', []))"
    by (simp add: forwardzoneReadAnswer_def)
  then show "\<exists>d'. snd (resourcednsforwardzoneRead lib d s) = Inr (d', []) \<and>
          (\<forall>ck. map_of (fz_class_parameters d') ck =
             (if ck \<in> fst ` set (fz_class_parameters d)
              then Some (if ck = ''dnsptr'' then []
                         else (case ParseQuery lib cps ck of Some rv \<Rightarrow> hd rv | None \<Rightarrow> []))
              else None))"
    by (simp add: forwardzoneReadFields_strings [OF keys cps parsed] map_of_computed
          dropDnsptr_apply)
next
  assume a: "fst (resourcednsforwardzoneImportState lib d s) = [rq] \<and> Request s rq = r \<and> err r = None \<and>
      StatusCode r = 200 \<and> buf r = b # bs \<and>
      (\<forall>k \<in> set [''dns_name'', ''dnsview_name'', ''dnszone_name'', ''dnszone_type'',
                    ''dnszone_forward'', ''dnszone_forwarders'', ''dnszone_class_name''].
          stringOk b k \<noteq> None) \<and>
      b ''dnszone_class_parameters'' = Some (JString cps) \<and>
      (\<forall>k. ParseQuery lib cps k \<noteq> Some [])"
  then obtain v1 v2 v3 v4 fwd fwds cls where keys:
    "stringOk b ''dns_name'' = Some v1" "stringOk b ''dnsview_name'' = Some v2"
    "stringOk b ''dnszone_name'' = Some v3" "stringOk b ''dnszone_forward'' = Some fwd"
    "stringOk b ''dnszone_forwarders'' = Some fwds" "stringOk b ''dnszone_class_name'' = Some cls"
    and type: "stringOk b ''dnszone_type'' = Some v4"
    by auto
  from a have cps: "stringOk b ''dnszone_class_parameters'' = Some cps"
    and parsed: "\<forall>k. ParseQuery lib cps k \<noteq> Some []"
    by (simp_all add: stringOk_Some_iff)
  from a have "snd (resourcednsforwardzoneImportState lib d s) = forwardzoneImportAnswer lib d r"
    using forwardzoneImport_sent [of lib d s rq] by simp
  with a have "snd (resourcednsforwardzoneImportState lib d s)
      = bind (forwardzoneImportFields lib d b) (\<lambda>d'. Inr ([d'], None))"
    by (simp add: forwardzoneImportAnswer_def)
  then show "\<exists>d'. snd (resourcednsforwardzoneImportState lib d s) = Inr ([d'], None) \<and>
          (\<forall>ck. map_of (fz_class_parameters d') ck =
             (if ck \<in> fst ` set (fz_class_parameters d)
              then Some (if ck = ''dnsptr'' then []
                         else (case ParseQuery lib cps ck of Some rv \<Rightarrow> hd rv | None \<Rightarrow> []))
              else None))"
    by (simp add: forwardzoneImportFields_strings [OF keys cps parsed type] map_of_computed
          dropDnsptr_apply)
qed


theorem read_class_parameters_witness:
  "(\<exists>d'. snd (resourcednsforwardzoneRead exampleLibrary exampleZone
                  (exampleServer 710 200 [exampleZoneObject])) = Inr (d', []) \<and>
          (\<forall>ck. map_of (fz_class_parameters d') ck =
             (if ck \<in> fst ` set (fz_class_parameters exampleZone)
              then Some (if ck = ''dnsptr'' then []
                         else (case ParseQuery exampleLibrary ''a=1&dnsptr=2'' ck of
                                 Some rv \<Rightarrow> hd rv | None \<Rightarrow> []))
              else None)))
   \<and> (\<exists>d'. snd (resourcednsforwardzoneImportState exampleLibrary exampleZone
                  (exampleServer 710 200 [exampleZoneObject])) = Inr ([d'], None) \<and>
          (\<forall>ck. map_of (fz_class_parameters d') ck =
             (if ck \<in> fst ` set (fz_class_parameters exampleZone)
              then Some (if ck = ''dnsptr'' then []
                         else (case ParseQuery exampleLibrary ''a=1&dnsptr=2'' ck of
                                 Some rv \<Rightarrow> hd rv | None \<Rightarrow> []))
              else None)))
   \<and> snd (resourcednsforwardzoneRead exampleLibrary exampleZone
            (exampleServer 710 200 [exampleZoneObject]))
       = Inr (exampleZone\<lparr>fz_class_parameters := [(''a'', ''1''), (''dnsptr'', []), (''c'', [])]\<rparr>, [])"
proof -
  let ?s = "exampleServer 710 200 [exampleZoneObject]"
  let ?r = "\<lparr>StatusCode = 200, buf = [exampleZoneObject], err = None\<rparr>"
  have parsed: "\<forall>k. ParseQuery exampleLibrary ''a=1&dnsptr=2'' k \<noteq> Some []"
    by (simp add: exampleLibrary_def)
  have strings: "stringOk exampleZoneObject ''dns_name'' = Some ''ns1''"
    "stringOk exampleZoneObject ''dnsview_name'' = Some ''#''"
    "stringOk exampleZoneObject ''dnszone_name'' = Some ''example.org''"
    "stringOk exampleZoneObject ''dnszone_forward'' = Some ''only''"
    "stringOk exampleZoneObject ''dnszone_forwarders'' = Some ''10.0.0.53;''"
    "stringOk exampleZoneObject ''dnszone_class_name'' = Some []"
    "stringOk exampleZoneObject ''dnszone_class_parameters'' = Some ''a=1&dnsptr=2''"
    "stringOk exampleZoneObject ''dnszone_type'' = Some ''forward''"
    by (simp_all add: stringOk_def exampleZoneObject_def)
  note r = read_class_parameters [where lib = exampleLibrary and d = exampleZone and s = ?s
      and rq = "hd (fst (resourcednsforwardzoneRead exampleLibrary exampleZone ?s))"
      and r = ?r and b = exampleZoneObject and bs = "[]" and cps = "''a=1&dnsptr=2''"]
  note i = read_class_parameters [where lib = exampleLibrary and d = exampleZone and s = ?s
      and rq = "hd (fst (resourcednsforwardzoneImportState exampleLibrary exampleZone ?s))"
      and r = ?r and b = exampleZoneObject and bs = "[]" and cps = "''a=1&dnsptr=2''"]
  have 1: "\<exists>d'. snd (resourcednsforwardzoneRead exampleLibrary exampleZone ?s) = Inr (d', []) \<and>
          (\<forall>ck. map_of (fz_class_parameters d') ck =
             (if ck \<in> fst ` set (fz_class_parameters exampleZone)
              then Some (if ck = ''dnsptr'' then []
                         else (case ParseQuery exampleLibrary ''a=1&dnsptr=2'' ck of
                                 Some rv \<Rightarrow> hd rv | None \<Rightarrow> []))
              else None))"
    by (rule r [THEN conjunct1, THEN mp])
       (simp add: resourcednsforwardzoneRead_def Let_def strings parsed stringOk_Some_iff [symmetric])
  have 2: "\<exists>d'. snd (resourcednsforwardzoneImportState exampleLibrary exampleZone ?s) = Inr ([d'], None) \<and>
          (\<forall>ck. map_of (fz_class_parameters d') ck =
             (if ck \<in> fst ` set (fz_class_parameters exampleZone)
              then Some (if ck = ''dnsptr'' then []
                         else (case ParseQuery exampleLibrary ''a=1&dnsptr=2'' ck of
                                 Some rv \<Rightarrow> hd rv | None \<Rightarrow> []))
              else None))"
    by (rule i [THEN conjunct2, THEN mp])
       (simp add: resourcednsforwardzoneImportState_def Let_def strings parsed
          stringOk_Some_iff [symmetric])
  have "forwardersOf ''10.0.0.53;'' = [''10.0.0.53'']"
    by (simp add: forwardersOf_def toStringArrayInterface_def TrimSuffix_def)
  moreover have "ToLower ''only'' = ''only''"
    by (simp add: ToLower_def lowerChar_def)
  ultimately have "forwardzoneReadFields exampleLibrary exampleZone exampleZoneObject
      = Inr (exampleZone\<lparr>fz_class_parameters := [(''a'', ''1''), (''dnsptr'', []), (''c'', [])]\<rparr>)"
    by (simp add: forwardzoneReadFields_strings [OF strings(1-7) parsed] dropDnsptr_apply)
       (simp add: exampleZone_def exampleLibrary_def)
  then have 3: "snd (resourcednsforwardzoneRead exampleLibrary exampleZone ?s)
       = Inr (exampleZone\<lparr>fz_class_parameters := [(''a'', ''1''), (''dnsptr'', []), (''c'', [])]\<rparr>, [])"
    by (simp add: resourcednsforwardzoneRead_def forwardzoneReadAnswer_def Let_def)
  from 1 2 3 show ?thesis
    by blast
qed

section \<open>The version check of the application pool\<close>

text \<open>C9, as amended. On a server of a version below 710, every handler of the
  application pool returns an error without sending a request and leaves the resource
  data as it was. The message of Create, Update, Delete and Read is
  \<^verbatim>\<open>Object not supported in this SOLIDserver version\<close>; the message of Import is
  the same text after the prefix \<^verbatim>\<open>SOLIDServer - \<close>, and Import returns no
  resource data.\<close>

theorem version_check_amended:
  assumes "Version s < 710"
  shows "resourceapplicationpoolCreate d s
           = ([], d, [''Object not supported in this SOLIDserver version''])
       \<and> resourceapplicationpoolUpdate d s
           = ([], d, [''Object not supported in this SOLIDserver version''])
       \<and> resourceapplicationpoolDelete d s
           = ([], d, [''Object not supported in this SOLIDserver version''])
       \<and> resourceapplicationpoolRead d s
           = ([], Inr (d, [''Object not supported in this SOLIDserver version'']))
       \<and> resourceapplicationpoolImportState d s
           = ([], Inr ([], Some ''SOLIDServer - Object not supported in this SOLIDserver version''))"
  using assms
  by (simp add: resourceapplicationpoolCreate_def resourceapplicationpoolUpdate_def
        resourceapplicationpoolDelete_def resourceapplicationpoolRead_def
        resourceapplicationpoolImportState_def Let_def Errorf_def notSupported_def)

theorem version_check_amended_witness:
  "resourceapplicationpoolCreate examplePool (exampleServer 700 200 [examplePoolObject])
           = ([], examplePool, [''Object not supported in this SOLIDserver version''])
       \<and> resourceapplicationpoolUpdate examplePool (exampleServer 700 200 [examplePoolObject])
           = ([], examplePool, [''Object not supported in this SOLIDserver version''])
       \<and> resourceapplicationpoolDelete examplePool (exampleServer 700 200 [examplePoolObject])
           = ([], examplePool, [''Object not supported in this SOLIDserver version''])
       \<and> resourceapplicationpoolRead examplePool (exampleServer 700 200 [examplePoolObject])
           = ([], Inr (examplePool, [''Object not supported in this SOLIDserver version'']))
       \<and> resourceapplicationpoolImportState examplePool (exampleServer 700 200 [examplePoolObject])
           = ([], Inr ([], Some ''SOLIDServer - Object not supported in this SOLIDserver version''))"
proof -
  have "Version (exampleServer 700 200 [examplePoolObject]) < 710"
    by simp
  then show ?thesis
    by (rule version_check_amended)
qed

text \<open>The claim as stated fails on Import, whose error is not the quoted message.\<close>

theorem import_version_message:
  "snd (resourceapplicationpoolImportState examplePool (exampleServer 700 200 [examplePoolObject]))
     = Inr ([], Some ''SOLIDServer - Object not supported in this SOLIDserver version'')
   \<and> snd (resourceapplicationpoolImportState examplePool (exampleServer 700 200 [examplePoolObject]))
     \<noteq> Inr ([], Some ''Object not supported in this SOLIDserver version'')"
  by (simp add: resourceapplicationpoolImportState_def Let_def notSupported_def)

section \<open>Panics of Read and Import\<close>

text \<open>C10, as amended. Let the request of the handler have gone through without
  transport error, with status 200 and a first element \<open>b\<close>. Read and Import of the
  application pool panic exactly when one of the keys they read is not a string in
  \<open>b\<close>: \<^verbatim>\<open>apppool_name\<close>, \<^verbatim>\<open>appapplication_name\<close>,
  \<^verbatim>\<open>appapplication_fqdn\<close>, \<^verbatim>\<open>apppool_lb_mode\<close>, \<^verbatim>\<open>apppool_affinity_state\<close>,
  \<^verbatim>\<open>apppool_best_active_nodes\<close>, and \<^verbatim>\<open>apppool_affinity_session_time\<close>, which is
  read only when the affinity state is not the string \<^verbatim>\<open>0\<close>. Read of the DNS
  forward zone panics exactly when one of \<^verbatim>\<open>dns_name\<close>, \<^verbatim>\<open>dnsview_name\<close>,
  \<^verbatim>\<open>dnszone_name\<close>, \<^verbatim>\<open>dnszone_forward\<close>, \<^verbatim>\<open>dnszone_forwarders\<close>,
  \<^verbatim>\<open>dnszone_class_name\<close>, \<^verbatim>\<open>dnszone_class_parameters\<close> is not a string, and
  Import when one of these or \<^verbatim>\<open>dnszone_type\<close> is not (given that
  \<^verbatim>\<open>url.ParseQuery\<close> returns no key with an empty list of values). Otherwise the
  handlers return. (\<open>stringOk b k \<noteq> None\<close> says that the key \<open>k\<close> is present in \<open>b\<close>
  as a string.)\<close>

theorem read_panics_amended:
  "(fst (resourceapplicationpoolRead d s) = [rq] \<and> Request s rq = r \<and> err r = None \<and>
      StatusCode r = 200 \<and> buf r = b # bs
    \<longrightarrow> ((\<exists>p. snd (resourceapplicationpoolRead d s) = Inl p) \<longleftrightarrow>
           \<not> ((\<forall>k \<in> set [''apppool_name'', ''appapplication_name'', ''appapplication_fqdn'',
                             ''apppool_lb_mode'', ''apppool_affinity_state'',
                             ''apppool_best_active_nodes'']. stringOk b k \<noteq> None)
               \<and> (stringOk b ''apppool_affinity_state'' \<noteq> Some ''0''
                    \<longrightarrow> stringOk b ''apppool_affinity_session_time'' \<noteq> None))))
   \<and> (fst (resourceapplicationpoolImportState d s) = [rq] \<and> Request s rq = r \<and> err r = None \<and>
      StatusCode r = 200 \<and> buf r = b # bs
    \<longrightarrow> ((\<exists>p. snd (resourceapplicationpoolImportState d s) = Inl p) \<longleftrightarrow>
           \<not> ((\<forall>k \<in> set [''apppool_name'', ''appapplication_name'', ''appapplication_fqdn'',
                             ''apppool_lb_mode'', ''apppool_affinity_state'',
                             ''apppool_best_active_nodes'']. stringOk b k \<noteq> None)
               \<and> (stringOk b ''apppool_affinity_state'' \<noteq> Some ''0''
                    \<longrightarrow> stringOk b ''apppool_affinity_session_time'' \<noteq> None))))
   \<and> (fst (resourcednsforwardzoneRead lib z s') = [rq'] \<and> Request s' rq' = r' \<and> err r' = None \<and>
      StatusCode r' = 200 \<and> buf r' = b' # bs' \<and> (\<forall>q k. ParseQuery lib q k \<noteq> Some [])
    \<longrightarrow> ((\<exists>p. snd (resourcednsforwardzoneRead lib z s') = Inl p) \<longleftrightarrow>
           \<not> (\<forall>k \<in> set [''dns_name'', ''dnsview_name'', ''dnszone_name'', ''dnszone_forward'',
                            ''dnszone_forwarders'', ''dnszone_class_name'',
                            ''dnszone_class_parameters'']. stringOk b' k \<noteq> None)))
   \<and> (fst (resourcednsforwardzoneImportState lib z s') = [rq'] \<and> Request s' rq' = r' \<and>
      err r' = None \<and> StatusCode r' = 200 \<and> buf r' = b' # bs' \<and>
      (\<forall>q k. ParseQuery lib q k \<noteq> Some [])
    \<longrightarrow> ((\<exists>p. snd (resourcednsforwardzoneImportState lib z s') = Inl p) \<longleftrightarrow>
           \<not> (\<forall>k \<in> set [''dns_name'', ''dnsview_name'', ''dnszone_name'', ''dnszone_type'',
                            ''dnszone_forward'', ''dnszone_forwarders'', ''dnszone_class_name'',
                            ''dnszone_class_parameters'']. stringOk b' k \<noteq> None)))"
proof (intro conjI impI)
  let ?keys = "(\<forall>k \<in> set [''apppool_name'', ''appapplication_name'', ''appapplication_fqdn'',
                             ''apppool_lb_mode'', ''apppool_affinity_state'',
                             ''apppool_best_active_nodes'']. stringOk b k \<noteq> None)
               \<and> (stringOk b ''apppool_affinity_state'' \<noteq> Some ''0''
                    \<longrightarrow> stringOk b ''apppool_affinity_session_time'' \<noteq> None)"
  {
    assume a: "fst (resourceapplicationpoolRead d s) = [rq] \<and> Request s rq = r \<and> err r = None \<and>
      StatusCode r = 200 \<and> buf r = b # bs"
    then have "snd (resourceapplicationpoolRead d s) = applicationpoolReadAnswer d r"
      using applicationpoolRead_sent [of d s rq] by simp
    with a have res: "snd (resourceapplicationpoolRead d s)
        = bind (applicationpoolReadFields d b) (\<lambda>d'. Inr (d', []))"
      by (simp add: applicationpoolReadAnswer_def)
    show "(\<exists>p. snd (resourceapplicationpoolRead d s) = Inl p) \<longleftrightarrow> \<not> ?keys"
    proof (cases "applicationpoolReadFields d b")
      case (Inl p)
      with res have "\<exists>p. snd (resourceapplicationpoolRead d s) = Inl p"
        by simp
      moreover have "\<not> ?keys"
      proof
        assume keys: ?keys
        then have "\<exists>v. stringOk b ''apppool_name'' = Some v"
          "\<exists>v. stringOk b ''appapplication_name'' = Some v"
          "\<exists>v. stringOk b ''appapplication_fqdn'' = Some v"
          "\<exists>v. stringOk b ''apppool_lb_mode'' = Some v"
          "\<exists>v. stringOk b ''apppool_affinity_state'' = Some v"
          "\<exists>v. stringOk b ''apppool_best_active_nodes'' = Some v"
          by simp_all
        then obtain v1 v2 v3 v4 st n where k:
          "stringOk b ''apppool_name'' = Some v1" "stringOk b ''appapplication_name'' = Some v2"
          "stringOk b ''appapplication_fqdn'' = Some v3" "stringOk b ''apppool_lb_mode'' = Some v4"
          "stringOk b ''apppool_affinity_state'' = Some st"
          "stringOk b ''apppool_best_active_nodes'' = Some n"
          by blast
        with keys have "\<exists>t. st \<noteq> ''0'' \<longrightarrow> stringOk b ''apppool_affinity_session_time'' = Some t"
          by (cases "st = ''0''") simp_all
        then obtain t
          where "st \<noteq> ''0'' \<longrightarrow> stringOk b ''apppool_affinity_session_time'' = Some t"
          by blast
        from applicationpoolReadFields_strings [OF k this] Inl show False
          by simp
      qed
      ultimately show ?thesis by simp
    next
      case (Inr d')
      with res have "\<not> (\<exists>p. snd (resourceapplicationpoolRead d s) = Inl p)"
        by simp
      moreover from Inr have ?keys
        by (rule applicationpoolReadFields_Inr_strings)
      ultimately show ?thesis by simp
    qed
  }
  {
    assume a: "fst (resourceapplicationpoolImportState d s) = [rq] \<and> Request s rq = r \<and>
      err r = None \<and> StatusCode r = 200 \<and> buf r = b # bs"
    then have "snd (resourceapplicationpoolImportState d s) = applicationpoolImportAnswer d r"
      using applicationpoolImport_sent [of d s rq] by simp
    with a have res: "snd (resourceapplicationpoolImportState d s)
        = bind (applicationpoolImportFields d b) (\<lambda>d'. Inr ([d'], None))"
      by (simp add: applicationpoolImportAnswer_def)
    show "(\<exists>p. snd (resourceapplicationpoolImportState d s) = Inl p) \<longleftrightarrow> \<not> ?keys"
    proof (cases "applicationpoolImportFields d b")
      case (Inl p)
      with res have "\<exists>p. snd (resourceapplicationpoolImportState d s) = Inl p"
        by simp
      moreover have "\<not> ?keys"
      proof
        assume keys: ?keys
        then have "\<exists>v. stringOk b ''apppool_name'' = Some v"
          "\<exists>v. stringOk b ''appapplication_name'' = Some v"
          "\<exists>v. stringOk b ''appapplication_fqdn'' = Some v"
          "\<exists>v. stringOk b ''apppool_lb_mode'' = Some v"
          "\<exists>v. stringOk b ''apppool_affinity_state'' = Some v"
          "\<exists>v. stringOk b ''apppool_best_active_nodes'' = Some v"
          by simp_all
        then obtain v1 v2 v3 v4 st n where k:
          "stringOk b ''apppool_name'' = Some v1" "stringOk b ''appapplication_name'' = Some v2"
          "stringOk b ''appapplication_fqdn'' = Some v3" "stringOk b ''apppool_lb_mode'' = Some v4"
          "stringOk b ''apppool_affinity_state'' = Some st"
          "stringOk b ''apppool_best_active_nodes'' = Some n"
          by blast
        with keys have "\<exists>t. st \<noteq> ''0'' \<longrightarrow> stringOk b ''apppool_affinity_session_time'' = Some t"
          by (cases "st = ''0''") simp_all
        then obtain t
          where "st \<noteq> ''0'' \<longrightarrow> stringOk b ''apppool_affinity_session_time'' = Some t"
          by blast
        from applicationpoolImportFields_strings [OF k this] Inl show False
          by simp
      qed
      ultimately show ?thesis by simp
    next
      case (Inr d')
      with res have "\<not> (\<exists>p. snd (resourceapplicationpoolImportState d s) = Inl p)"
        by simp
      moreover from Inr have ?keys
        by (rule applicationpoolImportFields_Inr_strings)
      ultimately show ?thesis by simp
    qed
  }
  {
    let ?zkeys = "\<forall>k \<in> set [''dns_name'', ''dnsview_name'', ''dnszone_name'', ''dnszone_forward'',
                            ''dnszone_forwarders'', ''dnszone_class_name'',
                            ''dnszone_class_parameters'']. stringOk b' k \<noteq> None"
    assume a: "fst (resourcednsforwardzoneRead lib z s') = [rq'] \<and> Request s' rq' = r' \<and>
      err r' = None \<and> StatusCode r' = 200 \<and> buf r' = b' # bs' \<and>
      (\<forall>q k. ParseQuery lib q k \<noteq> Some [])"
    then have "snd (resourcednsforwardzoneRead lib z s') = forwardzoneReadAnswer lib z r'"
      using forwardzoneRead_sent [of lib z s' rq'] by simp
    with a have res: "snd (resourcednsforwardzoneRead lib z s')
        = bind (forwardzoneReadFields lib z b') (\<lambda>d'. Inr (d', []))"
      by (simp add: forwardzoneReadAnswer_def)
    show "(\<exists>p. snd (resourcednsforwardzoneRead lib z s') = Inl p) \<longleftrightarrow> \<not> ?zkeys"
    proof (cases "forwardzoneReadFields lib z b'")
      case (Inl p)
      with res have "\<exists>p. snd (resourcednsforwardzoneRead lib z s') = Inl p"
        by simp
      moreover have "\<not> ?zkeys"
      proof
        assume ?zkeys
        then have "\<exists>v. stringOk b' ''dns_name'' = Some v"
          "\<exists>v. stringOk b' ''dnsview_name'' = Some v"
          "\<exists>v. stringOk b' ''dnszone_name'' = Some v"
          "\<exists>v. stringOk b' ''dnszone_forward'' = Some v"
          "\<exists>v. stringOk b' ''dnszone_forwarders'' = Some v"
          "\<exists>v. stringOk b' ''dnszone_class_name'' = Some v"
          "\<exists>v. stringOk b' ''dnszone_class_parameters'' = Some v"
          by simp_all
        then obtain v1 v2 v3 fwd fwds cls cps where k:
          "stringOk b' ''dns_name'' = Some v1" "stringOk b' ''dnsview_name'' = Some v2"
          "stringOk b' ''dnszone_name'' = Some v3" "stringOk b' ''dnszone_forward'' = Some fwd"
          "stringOk b' ''dnszone_forwarders'' = Some fwds"
          "stringOk b' ''dnszone_class_name'' = Some cls"
          "stringOk b' ''dnszone_class_parameters'' = Some cps"
          by blast
        from a have "\<forall>k. ParseQuery lib cps k \<noteq> Some []"
          by simp
        from forwardzoneReadFields_strings [OF k this] Inl show False
          by simp
      qed
      ultimately show ?thesis by simp
    next
      case (Inr d')
      with res have "\<not> (\<exists>p. snd (resourcednsforwardzoneRead lib z s') = Inl p)"
        by simp
      moreover from Inr have ?zkeys
        by (rule forwardzoneReadFields_Inr_strings)
      ultimately show ?thesis by simp
    qed
  }
  {
    let ?zkeys = "\<forall>k \<in> set [''dns_name'', ''dnsview_name'', ''dnszone_name'', ''dnszone_type'',
                            ''dnszone_forward'', ''dnszone_forwarders'', ''dnszone_class_name'',
                            ''dnszone_class_parameters'']. stringOk b' k \<noteq> None"
    assume a: "fst (resourcednsforwardzoneImportState lib z s') = [rq'] \<and> Request s' rq' = r' \<and>
      err r' = None \<and> StatusCode r' = 200 \<and> buf r' = b' # bs' \<and>
      (\<forall>q k. ParseQuery lib q k \<noteq> Some [])"
    then have "snd (resourcednsforwardzoneImportState lib z s') = forwardzoneImportAnswer lib z r'"
      using forwardzoneImport_sent [of lib z s' rq'] by simp
    with a have res: "snd (resourcednsforwardzoneImportState lib z s')
        = bind (forwardzoneImportFields lib z b') (\<lambda>d'. Inr ([d'], None))"
      by (simp add: forwardzoneImportAnswer_def)
    show "(\<exists>p. snd (resourcednsforwardzoneImportState lib z s') = Inl p) \<longleftrightarrow> \<not> ?zkeys"
    proof (cases "forwardzoneImportFields lib z b'")
      case (Inl p)
      with res have "\<exists>p. snd (resourcednsforwardzoneImportState lib z s') = Inl p"
        by simp
      moreover have "\<not> ?zkeys"
      proof
        assume ?zkeys
        then have "\<exists>v. stringOk b' ''dns_name'' = Some v"
          "\<exists>v. stringOk b' ''dnsview_name'' = Some v"
          "\<exists>v. stringOk b' ''dnszone_name'' = Some v"
          "\<exists>v. stringOk b' ''dnszone_forward'' = Some v"
          "\<exists>v. stringOk b' ''dnszone_forwarders'' = Some v"
          "\<exists>v. stringOk b' ''dnszone_class_name'' = Some v"
          "\<exists>v. stringOk b' ''dnszone_class_parameters'' = Some v"
          "\<exists>v. stringOk b' ''dnszone_type'' = Some v"
          by simp_all
        then obtain v1 v2 v3 v4 fwd fwds cls cps where k:
          "stringOk b' ''dns_name'' = Some v1" "stringOk b' ''dnsview_name'' = Some v2"
          "stringOk b' ''dnszone_name'' = Some v3" "stringOk b' ''dnszone_forward'' = Some fwd"
          "stringOk b' ''dnszone_forwarders'' = Some fwds"
          "stringOk b' ''dnszone_class_name'' = Some cls"
          "stringOk b' ''dnszone_class_parameters'' = Some cps"
          and t: "stringOk b' ''dnszone_type'' = Some v4"
          by blast
        from a have "\<forall>k. ParseQuery lib cps k \<noteq> Some []"
          by simp
        from forwardzoneImportFields_strings [OF k this t] Inl show False
          by simp
      qed
      ultimately show ?thesis by simp
    next
      case (Inr d')
      with res have "\<not> (\<exists>p. snd (resourcednsforwardzoneImportState lib z s') = Inl p)"
        by simp
      moreover from Inr have ?zkeys
        by (rule forwardzoneImportFields_Inr_strings)
      ultimately show ?thesis by simp
    qed
  }
qed


theorem read_panics_amended_witness:
  "(\<exists>p. snd (resourceapplicationpoolRead examplePool (exampleServer 710 200 [Map.empty])) = Inl p)
   \<and> \<not> (\<exists>p. snd (resourceapplicationpoolRead examplePool
                    (exampleServer 710 200 [examplePoolObject])) = Inl p)
   \<and> (\<exists>p. snd (resourceapplicationpoolImportState examplePool
                  (exampleServer 710 200 [Map.empty])) = Inl p)
   \<and> \<not> (\<exists>p. snd (resourceapplicationpoolImportState examplePool
                    (exampleServer 710 200 [examplePoolObject])) = Inl p)
   \<and> (\<exists>p. snd (resourcednsforwardzoneRead exampleLibrary exampleZone
                  (exampleServer 710 200 [Map.empty])) = Inl p)
   \<and> \<not> (\<exists>p. snd (resourcednsforwardzoneRead exampleLibrary exampleZone
                    (exampleServer 710 200 [exampleZoneObject])) = Inl p)
   \<and> (\<exists>p. snd (resourcednsforwardzoneImportState exampleLibrary exampleZone
                  (exampleServer 710 200 [Map.empty])) = Inl p)
   \<and> \<not> (\<exists>p. snd (resourcednsforwardzoneImportState exampleLibrary exampleZone
                    (exampleServer 710 200 [exampleZoneObject])) = Inl p)"
proof -
  let ?e = "exampleServer 710 200 [Map.empty]"
  let ?p = "exampleServer 710 200 [examplePoolObject]"
  let ?z = "exampleServer 710 200 [exampleZoneObject]"
  have parsed: "\<forall>q k. ParseQuery exampleLibrary q k \<noteq> Some []"
    by (simp add: exampleLibrary_def)
  note none = read_panics_amended [where d = examplePool and s = ?e
      and r = "\<lparr>StatusCode = 200, buf = [Map.empty], err = None\<rparr>" and b = Map.empty and bs = "[]"
      and lib = exampleLibrary and z = exampleZone and s' = ?e
      and r' = "\<lparr>StatusCode = 200, buf = [Map.empty], err = None\<rparr>" and b' = Map.empty
      and bs' = "[]"]
  note pool = read_panics_amended [where d = examplePool and s = ?p
      and r = "\<lparr>StatusCode = 200, buf = [examplePoolObject], err = None\<rparr>"
      and b = examplePoolObject and bs = "[]"]
  note zone = read_panics_amended [where lib = exampleLibrary and z = exampleZone and s' = ?z
      and r' = "\<lparr>StatusCode = 200, buf = [exampleZoneObject], err = None\<rparr>"
      and b' = exampleZoneObject and bs' = "[]"]
  have 1: "\<exists>p. snd (resourceapplicationpoolRead examplePool ?e) = Inl p"
    using none [where rq = "hd (fst (resourceapplicationpoolRead examplePool ?e))",
        THEN conjunct1, THEN mp]
    by (auto simp add: resourceapplicationpoolRead_def Let_def stringOk_def)
  have 2: "\<not> (\<exists>p. snd (resourceapplicationpoolRead examplePool ?p) = Inl p)"
    using pool [where rq = "hd (fst (resourceapplicationpoolRead examplePool ?p))",
        THEN conjunct1, THEN mp]
    by (auto simp add: resourceapplicationpoolRead_def Let_def stringOk_def examplePoolObject_def)
  have 3: "\<exists>p. snd (resourceapplicationpoolImportState examplePool ?e) = Inl p"
    using none [where rq = "hd (fst (resourceapplicationpoolImportState examplePool ?e))",
        THEN conjunct2, THEN conjunct1, THEN mp]
    by (auto simp add: resourceapplicationpoolImportState_def Let_def stringOk_def)
  have 4: "\<not> (\<exists>p. snd (resourceapplicationpoolImportState examplePool ?p) = Inl p)"
    using pool [where rq = "hd (fst (resourceapplicationpoolImportState examplePool ?p))",
        THEN conjunct2, THEN conjunct1, THEN mp]
    by (auto simp add: resourceapplicationpoolImportState_def Let_def stringOk_def examplePoolObject_def)
  have 5: "\<exists>p. snd (resourcednsforwardzoneRead exampleLibrary exampleZone ?e) = Inl p"
    using none [where rq' = "hd (fst (resourcednsforwardzoneRead exampleLibrary exampleZone ?e))",
        THEN conjunct2, THEN conjunct2, THEN conjunct1, THEN mp] parsed
    by (auto simp add: resourcednsforwardzoneRead_def Let_def stringOk_def)
  have 6: "\<not> (\<exists>p. snd (resourcednsforwardzoneRead exampleLibrary exampleZone ?z) = Inl p)"
    using zone [where rq' = "hd (fst (resourcednsforwardzoneRead exampleLibrary exampleZone ?z))",
        THEN conjunct2, THEN conjunct2, THEN conjunct1, THEN mp] parsed
    by (auto simp add: resourcednsforwardzoneRead_def Let_def stringOk_def exampleZoneObject_def)
  have 7: "\<exists>p. snd (resourcednsforwardzoneImportState exampleLibrary exampleZone ?e) = Inl p"
    using none [where rq' = "hd (fst (resourcednsforwardzoneImportState exampleLibrary exampleZone ?e))",
        THEN conjunct2, THEN conjunct2, THEN conjunct2, THEN mp] parsed
    by (auto simp add: resourcednsforwardzoneImportState_def Let_def stringOk_def)
  have 8: "\<not> (\<exists>p. snd (resourcednsforwardzoneImportState exampleLibrary exampleZone ?z) = Inl p)"
    using zone [where rq' = "hd (fst (resourcednsforwardzoneImportState exampleLibrary exampleZone ?z))",
        THEN conjunct2, THEN conjunct2, THEN conjunct2, THEN mp] parsed
    by (auto simp add: resourcednsforwardzoneImportState_def Let_def stringOk_def exampleZoneObject_def)
  from 1 2 3 4 5 6 7 8 show ?thesis
    by blast
qed

text \<open>The claim as stated fails on the application pool: the first element
  \<open>examplePoolObject\<close> lacks the mapped key \<^verbatim>\<open>apppool_affinity_session_time\<close>, and
  Read returns without error, since the affinity state is \<^verbatim>\<open>0\<close>.\<close>

theorem applicationpoolRead_without_session_time:
  "examplePoolObject ''apppool_affinity_session_time'' = None
   \<and> resourceapplicationpoolRead examplePool (exampleServer 710 200 [examplePoolObject])
       = ([\<lparr>verb = ''get'', path = ''rest/app_pool_info'',
             parameters = [''apppool_id'' \<mapsto> [''7'']]\<rparr>],
          Inr (examplePool, []))"
proof -
  have strings: "stringOk examplePoolObject ''apppool_name'' = Some ''pool''"
    "stringOk examplePoolObject ''appapplication_name'' = Some ''app''"
    "stringOk examplePoolObject ''appapplication_fqdn'' = Some ''app.example.org''"
    "stringOk examplePoolObject ''apppool_lb_mode'' = Some ''round-robin''"
    "stringOk examplePoolObject ''apppool_affinity_state'' = Some ''0''"
    "stringOk examplePoolObject ''apppool_best_active_nodes'' = Some ''1''"
    by (simp_all add: stringOk_def examplePoolObject_def)
  have "Atoi ''1'' = 1"
    by (simp add: Atoi_def digitVal_def)
  then have "applicationpoolReadFields examplePool examplePoolObject = Inr examplePool"
    by (simp add: applicationpoolReadFields_strings [OF strings, of undefined] examplePool_def)
  then show ?thesis
    by (simp add: resourceapplicationpoolRead_def applicationpoolReadAnswer_def Let_def Add_fresh)
       (simp add: examplePool_def examplePoolObject_def)
qed

end
